theory Spec2Isabelle
  imports Main "HOL-Library.Sublist"
begin

section \<open>JavaScript values\<close>

text \<open>
  The YAML library (\<^verbatim>\<open>YAML.parse\<close>, \<^verbatim>\<open>YAML.stringify\<close>) hands the codec plain JavaScript
  values. TypeScript's annotations are erased at run time, so the decoders of
  \<^verbatim>\<open>utils/parser.ts\<close> work on whatever the document holds; the model keeps that: a
  value is one of the shapes below. Numbers are restricted to integers (fractions, NaN and
  the infinities are outside the model). An object is an association list in insertion
  order with distinct keys.
\<close>

datatype jsval =
    JUndefined
  | JNull
  | JBool bool
  | JNum int
  | JStr string
  | JArr "jsval list"
  | JObj "(string \<times> jsval) list"

datatype error =
    GitHubAPIError nat string
  | Error string
  | TypeError string

text \<open>The truthiness test behind \<^verbatim>\<open>if (v)\<close>, \<^verbatim>\<open>!v\<close> and \<^verbatim>\<open>a || b\<close>.\<close>

fun truthy :: "jsval \<Rightarrow> bool" where
  "truthy JUndefined = False"
| "truthy JNull = False"
| "truthy (JBool b) = b"
| "truthy (JNum n) = (n \<noteq> 0)"
| "truthy (JStr s) = (s \<noteq> [])"
| "truthy (JArr xs) = True"
| "truthy (JObj kvs) = True"

definition js_or :: "jsval \<Rightarrow> jsval \<Rightarrow> jsval" where
  "js_or a b = (if truthy a then a else b)"

text \<open>Property read \<^verbatim>\<open>data.key\<close> on a value that is neither null nor undefined: a missing
  key, and any key of a primitive or an array that the codec asks for, reads as undefined.\<close>

fun getProp :: "jsval \<Rightarrow> string \<Rightarrow> jsval" where
  "getProp (JObj kvs) k = (case map_of kvs k of None \<Rightarrow> JUndefined | Some v \<Rightarrow> v)"
| "getProp v k = JUndefined"

fun nullish :: "jsval \<Rightarrow> bool" where
  "nullish JUndefined = True"
| "nullish JNull = True"
| "nullish v = False"

text \<open>Decimal rendering of an integer, as a template literal or \<^verbatim>\<open>String(n)\<close> gives it;
  \<open>digits\<close> is the table of digit characters (up to base 16, for percent-encoding).\<close>

definition digits :: string where
  "digits = ''0123456789ABCDEF''"

fun show_nat :: "nat \<Rightarrow> string" where
  "show_nat n =
     (if n < 10 then [digits ! n]
      else show_nat (n div 10) @ [digits ! (n mod 10)])"

declare show_nat.simps [simp del]

definition show_int :: "int \<Rightarrow> string" where
  "show_int i = (if i < 0 then CHR ''-'' # show_nat (nat (- i)) else show_nat (nat i))"

fun join :: "string \<Rightarrow> string list \<Rightarrow> string" where
  "join sep [] = []"
| "join sep [x] = x"
| "join sep (x # y # ys) = x @ sep @ join sep (y # ys)"

text \<open>\<^verbatim>\<open>String(v)\<close>: an array joins its elements with commas, null and undefined elements
  as empty strings. An integer prints in full digits; the exponent form that JavaScript uses
  from \<^verbatim>\<open>1e21\<close> up is outside the model, as all numbers that are not exact integers are.\<close>

fun js_String :: "jsval \<Rightarrow> string" where
  "js_String JUndefined = ''undefined''"
| "js_String JNull = ''null''"
| "js_String (JBool b) = (if b then ''true'' else ''false'')"
| "js_String (JNum n) = show_int n"
| "js_String (JStr s) = s"
| "js_String (JArr xs) = join '','' (map (\<lambda>x. if nullish x then [] else js_String x) xs)"
| "js_String (JObj kvs) = ''[object Object]''"

text \<open>\<^verbatim>\<open>s.split(c)\<close> for a one-character separator: never empty, \<^verbatim>\<open>"".split(c)\<close> is
  \<^verbatim>\<open>[""]\<close>.\<close>

fun js_split :: "char \<Rightarrow> string \<Rightarrow> string list" where
  "js_split c [] = [[]]"
| "js_split c (x # xs) =
     (if x = c then [] # js_split c xs
      else (case js_split c xs of
              [] \<Rightarrow> [[x]]
            | s # ss \<Rightarrow> (x # s) # ss))"

text \<open>\<^verbatim>\<open>s.split(c).pop()\<close>: the part after the last separator.\<close>

definition split_pop :: "char \<Rightarrow> string \<Rightarrow> string" where
  "split_pop c s = last (js_split c s)"

section \<open>The record codec (utils/parser.ts)\<close>

text \<open>
  A ticket as it exists at run time. \<^verbatim>\<open>id\<close>, \<^verbatim>\<open>path\<close> and \<^verbatim>\<open>sha\<close> are strings; priority,
  the three lists and the estimate are what \<^verbatim>\<open>validatePriority\<close>, \<^verbatim>\<open>normalizeArray\<close> and the
  \<^verbatim>\<open>typeof\<close> test let through (\<open>None\<close> is undefined); every other field is copied from
  the document as it is and so holds a JavaScript value.
\<close>

record ticket =
  ticket_id :: string
  path :: string
  sha :: string
  title :: jsval
  ticket_type :: jsval
  status :: jsval
  priority :: "string option"
  assignees :: "string list option"
  labels :: "string list option"
  parent :: jsval
  version :: jsval
  estimate :: "int option"
  dueDate :: jsval
  description :: jsval
  images :: "string list option"
  createdAt :: jsval
  updatedAt :: jsval

text \<open>\<^verbatim>\<open>parseYaml\<close>: the library's parser is a parameter, \<open>None\<close> where it throws.\<close>

definition parseYaml :: "(string \<Rightarrow> jsval option) \<Rightarrow> string \<Rightarrow> error + jsval" where
  "parseYaml yaml_parse content =
     (case yaml_parse content of
        None \<Rightarrow> Inl (Error ''Invalid YAML format'')
      | Some v \<Rightarrow> Inr v)"

text \<open>\<^verbatim>\<open>serializeYaml\<close>: the library's printer is a parameter.\<close>

definition serializeYaml :: "(jsval \<Rightarrow> string) \<Rightarrow> jsval \<Rightarrow> string" where
  "serializeYaml yaml_stringify data = yaml_stringify data"

definition strip_yml :: "string \<Rightarrow> string" where
  "strip_yml f =
     (if suffix ''.yml'' f then take (length f - 4) f
      else if suffix ''.yaml'' f then take (length f - 5) f
      else f)"

definition extractTicketId :: "string \<Rightarrow> string" where
  "extractTicketId p =
     (let filename = (if split_pop CHR ''/'' p = [] then p else split_pop CHR ''/'' p)
      in strip_yml filename)"

definition validPriorities :: "string list" where
  "validPriorities = [''low'', ''medium'', ''high'', ''critical'']"

fun validatePriority :: "jsval \<Rightarrow> string option" where
  "validatePriority (JStr s) = (if s \<in> set validPriorities then Some s else None)"
| "validatePriority v = None"

fun normalizeArray :: "jsval \<Rightarrow> string list option" where
  "normalizeArray (JArr xs) = Some (map js_String xs)"
| "normalizeArray (JStr s) = Some [s]"
| "normalizeArray v = None"

fun number_or_undefined :: "jsval \<Rightarrow> int option" where
  "number_or_undefined (JNum n) = Some n"
| "number_or_undefined v = None"

text \<open>The body of \<^verbatim>\<open>parseTicketFile\<close> after \<^verbatim>\<open>parseYaml\<close>. Reading a property of a null
  document (an empty file) throws a TypeError.\<close>

definition ticketOfData :: "jsval \<Rightarrow> string \<Rightarrow> string \<Rightarrow> error + ticket" where
  "ticketOfData data p h =
     (if nullish data then Inl (TypeError ''Cannot read properties of null'')
      else
        let i = extractTicketId p in
        Inr \<lparr> ticket_id = i,
              path = p,
              sha = h,
              title = js_or (getProp data ''title'') (JStr (''Ticket '' @ i)),
              ticket_type = js_or (getProp data ''type'') (JStr ''task''),
              status = js_or (getProp data ''status'') (JStr ''backlog''),
              priority = validatePriority (getProp data ''priority''),
              assignees = normalizeArray (getProp data ''assignees''),
              labels = normalizeArray (getProp data ''labels''),
              parent = getProp data ''parent'',
              version = getProp data ''version'',
              estimate = number_or_undefined (getProp data ''estimate''),
              dueDate = getProp data ''dueDate'',
              description = getProp data ''description'',
              images = normalizeArray (getProp data ''images''),
              createdAt = getProp data ''createdAt'',
              updatedAt = getProp data ''updatedAt'' \<rparr>)"

definition parseTicketFile ::
  "(string \<Rightarrow> jsval option) \<Rightarrow> string \<Rightarrow> string \<Rightarrow> string \<Rightarrow> error + ticket" where
  "parseTicketFile yaml_parse content p h =
     (case parseYaml yaml_parse content of
        Inl e \<Rightarrow> Inl e
      | Inr data \<Rightarrow> ticketOfData data p h)"

text \<open>The optional assignments of \<^verbatim>\<open>serializeTicket\<close>: \<^verbatim>\<open>if (ticket.f) data.f = ticket.f\<close>
  for a copied value, a priority and a list (\<^verbatim>\<open>ticket.f?.length\<close>).\<close>

definition opt_val :: "string \<Rightarrow> jsval \<Rightarrow> (string \<times> jsval) list" where
  "opt_val k v = (if truthy v then [(k, v)] else [])"

definition opt_str :: "string \<Rightarrow> string option \<Rightarrow> (string \<times> jsval) list" where
  "opt_str k v = (case v of None \<Rightarrow> [] | Some s \<Rightarrow> if s \<noteq> [] then [(k, JStr s)] else [])"

definition opt_list :: "string \<Rightarrow> string list option \<Rightarrow> (string \<times> jsval) list" where
  "opt_list k v =
     (case v of None \<Rightarrow> [] | Some xs \<Rightarrow> if length xs \<noteq> 0 then [(k, JArr (map JStr xs))] else [])"

definition opt_num :: "string \<Rightarrow> int option \<Rightarrow> (string \<times> jsval) list" where
  "opt_num k v = (case v of None \<Rightarrow> [] | Some n \<Rightarrow> [(k, JNum n)])"

text \<open>The object \<^verbatim>\<open>data\<close> that \<^verbatim>\<open>serializeTicket\<close> builds; \<open>now\<close> is the reading of
  \<^verbatim>\<open>new Date().toISOString()\<close>. The keys are assigned once each, in this order.\<close>

definition ticketData :: "string \<Rightarrow> ticket \<Rightarrow> jsval" where
  "ticketData now t =
     JObj ([(''title'', title t), (''type'', ticket_type t), (''status'', status t)]
           @ opt_str ''priority'' (priority t)
           @ opt_list ''assignees'' (assignees t)
           @ opt_list ''labels'' (labels t)
           @ opt_val ''parent'' (parent t)
           @ opt_val ''version'' (version t)
           @ opt_num ''estimate'' (estimate t)
           @ opt_val ''dueDate'' (dueDate t)
           @ opt_val ''description'' (description t)
           @ opt_list ''images'' (images t)
           @ opt_val ''createdAt'' (createdAt t)
           @ [(''updatedAt'', JStr now)])"

definition serializeTicket :: "(jsval \<Rightarrow> string) \<Rightarrow> string \<Rightarrow> ticket \<Rightarrow> string" where
  "serializeTicket yaml_stringify now t = serializeYaml yaml_stringify (ticketData now t)"


text \<open>
  The list-style files. TypeScript's types are erased, so a decoded column, ticket type or
  version holds whatever values the document's item carries under the copied keys.
\<close>

record KanbanColumn =
  c_id :: jsval
  c_name :: jsval
  c_statuses :: jsval
  c_color :: jsval

record TicketType =
  tt_id :: jsval
  tt_name :: jsval
  tt_icon :: jsval
  tt_color :: jsval

record Version =
  v_id :: jsval
  v_name :: jsval
  v_startDate :: jsval
  v_targetDate :: jsval
  v_createdAt :: jsval

fun isArray :: "jsval \<Rightarrow> bool" where
  "isArray (JArr xs) = True"
| "isArray v = False"

fun elements :: "jsval \<Rightarrow> jsval list" where
  "elements (JArr xs) = xs"
| "elements v = []"

text \<open>\<^verbatim>\<open>xs.map(f)\<close> for a callback that may throw: the first throw ends the whole map.\<close>

fun map_throw :: "('a \<Rightarrow> error + 'b) \<Rightarrow> 'a list \<Rightarrow> error + 'b list" where
  "map_throw f [] = Inr []"
| "map_throw f (x # xs) =
     (case f x of
        Inl e \<Rightarrow> Inl e
      | Inr y \<Rightarrow> (case map_throw f xs of Inl e \<Rightarrow> Inl e | Inr ys \<Rightarrow> Inr (y # ys)))"

text \<open>\<^verbatim>\<open>Array.isArray(data) ? data : data.key\<close>, then the \<^verbatim>\<open>Array.isArray\<close> check of the
  result; reading \<^verbatim>\<open>data.key\<close> of a null document throws.\<close>

definition listOfData :: "string \<Rightarrow> string \<Rightarrow> jsval \<Rightarrow> error + jsval list" where
  "listOfData key msg data =
     (if isArray data then Inr (elements data)
      else if nullish data then Inl (TypeError ''Cannot read properties of null'')
      else if \<not> isArray (getProp data key) then Inl (Error msg)
      else Inr (elements (getProp data key)))"

definition columnOfItem :: "jsval \<Rightarrow> error + KanbanColumn" where
  "columnOfItem col =
     (if nullish col then Inl (TypeError ''Cannot read properties of null'')
      else Inr \<lparr> c_id = getProp col ''id'',
                 c_name = getProp col ''name'',
                 c_statuses = (if isArray (getProp col ''statuses'') then getProp col ''statuses''
                               else JArr [getProp col ''id'']),
                 c_color = getProp col ''color'' \<rparr>)"

definition parseColumnsFile :: "(string \<Rightarrow> jsval option) \<Rightarrow> string \<Rightarrow> error + KanbanColumn list" where
  "parseColumnsFile yaml_parse content =
     (case parseYaml yaml_parse content of
        Inl e \<Rightarrow> Inl e
      | Inr data \<Rightarrow>
          (case listOfData ''columns'' ''columns.yml must contain an array of columns'' data of
             Inl e \<Rightarrow> Inl e
           | Inr columns \<Rightarrow> map_throw columnOfItem columns))"

definition typeOfItem :: "jsval \<Rightarrow> error + TicketType" where
  "typeOfItem t =
     (if nullish t then Inl (TypeError ''Cannot read properties of null'')
      else Inr \<lparr> tt_id = getProp t ''id'',
                 tt_name = getProp t ''name'',
                 tt_icon = getProp t ''icon'',
                 tt_color = getProp t ''color'' \<rparr>)"

definition parseTicketTypesFile :: "(string \<Rightarrow> jsval option) \<Rightarrow> string \<Rightarrow> error + TicketType list" where
  "parseTicketTypesFile yaml_parse content =
     (case parseYaml yaml_parse content of
        Inl e \<Rightarrow> Inl e
      | Inr data \<Rightarrow>
          (case listOfData ''ticketTypes''
                  ''ticketTypes.yml must contain an array of ticket types'' data of
             Inl e \<Rightarrow> Inl e
           | Inr types \<Rightarrow> map_throw typeOfItem types))"

definition versionOfItem :: "jsval \<Rightarrow> error + Version" where
  "versionOfItem v =
     (if nullish v then Inl (TypeError ''Cannot read properties of null'')
      else Inr \<lparr> v_id = getProp v ''id'',
                 v_name = getProp v ''name'',
                 v_startDate = getProp v ''startDate'',
                 v_targetDate = getProp v ''targetDate'',
                 v_createdAt = getProp v ''createdAt'' \<rparr>)"

definition parseVersionsFile :: "(string \<Rightarrow> jsval option) \<Rightarrow> string \<Rightarrow> error + Version list" where
  "parseVersionsFile yaml_parse content =
     (case parseYaml yaml_parse content of
        Inl e \<Rightarrow> Inl e
      | Inr data \<Rightarrow>
          (case listOfData ''versions'' ''versions.yml must contain an array of versions'' data of
             Inl e \<Rightarrow> Inl e
           | Inr versions \<Rightarrow> map_throw versionOfItem versions))"


section \<open>The remote content client (api/github.ts)\<close>

text \<open>
  A request as \<^verbatim>\<open>githubFetch\<close> hands it to \<^verbatim>\<open>fetch\<close>: URL, method, bearer token and the JSON
  body. The body objects of this file have the keys message, content, sha and branch;
  \<^verbatim>\<open>JSON.stringify\<close> leaves out a key that was never assigned or is undefined, so an absent
  key is \<open>None\<close>. The base64 transport coding of file text (\<^verbatim>\<open>btoa\<close>, \<^verbatim>\<open>atob\<close>) is not
  modelled: \<open>body_content\<close> and \<open>content_content\<close> hold the text itself. So the model
  covers content that is valid base64 of ASCII text; \<^verbatim>\<open>atob\<close> throwing on invalid base64, and
  its reading of UTF-8 bytes as Latin-1 characters, are outside it.
\<close>

datatype http_method = GET | POST | PUT | PATCH | DELETE

record request_body =
  body_message :: string
  body_content :: "string option"
  body_sha :: "string option"
  body_branch :: "string option"

record request =
  req_url :: string
  req_method :: http_method
  req_token :: string
  req_body :: "request_body option"

datatype item_kind = Blob | Tree

record GitHubTreeItem =
  item_path :: string
  item_type :: item_kind
  item_sha :: string

record GitHubContent =
  content_name :: string
  content_path :: string
  content_sha :: string
  content_type :: string
  content_content :: "string option"

text \<open>The JSON of a successful response, by the shape its reader casts it to.\<close>

datatype payload =
    RefResponse string
  | TreeResponse "GitHubTreeItem list" bool
  | ContentResponse GitHubContent
  | CommitResponse GitHubContent
  | RepositoryResponse string
  | EmptyResponse

text \<open>The body of a failed response as \<^verbatim>\<open>githubFetch\<close> reads it: JSON \<^verbatim>\<open>null\<close>, or anything
  else with the \<^verbatim>\<open>message\<close> it carries (empty when it carries none, or is not JSON at all
  and is replaced by \<^verbatim>\<open>{}\<close>).\<close>

datatype error_body = NullBody | Message string

record response =
  resp_status :: nat
  resp_statusText :: string
  resp_error :: error_body
  resp_json :: payload

text \<open>\<^verbatim>\<open>fetch\<close> either rejects (no response at all) or resolves with a response.\<close>

datatype reply = Rejected | Reply response

text \<open>
  The provider is a parameter: a function from its own state \<open>'w\<close> and a request to a reply
  and its next state. The client's state is the provider's state, the requests issued so far
  and the lines written with \<^verbatim>\<open>console.warn\<close>.
\<close>

record 'w world =
  remote :: 'w
  sent :: "request list"
  warned :: "string list"

type_synonym 'w server = "'w \<Rightarrow> request \<Rightarrow> reply \<times> 'w"

type_synonym ('w, 'a) io = "'w world \<Rightarrow> (error + 'a) \<times> 'w world"

definition return :: "'a \<Rightarrow> ('w, 'a) io" where
  "return x st = (Inr x, st)"

definition throw :: "error \<Rightarrow> ('w, 'a) io" where
  "throw e st = (Inl e, st)"

text \<open>\<^verbatim>\<open>const x = await m; k(x)\<close>: a rejection of \<open>m\<close> is thrown on.\<close>

definition await :: "('w, 'a) io \<Rightarrow> ('a \<Rightarrow> ('w, 'b) io) \<Rightarrow> ('w, 'b) io" where
  "await m k st =
     (case m st of
        (Inl e, st') \<Rightarrow> (Inl e, st')
      | (Inr x, st') \<Rightarrow> k x st')"

definition GITHUB_API_BASE :: string where
  "GITHUB_API_BASE = ''https://api.github.com''"

definition response_ok :: "response \<Rightarrow> bool" where
  "response_ok r = (200 \<le> resp_status r \<and> resp_status r \<le> 299)"

text \<open>The request \<^verbatim>\<open>githubFetch\<close> builds from its arguments.\<close>

definition request_of :: "string \<Rightarrow> string \<Rightarrow> http_method \<Rightarrow> request_body option \<Rightarrow> request" where
  "request_of endpoint token meth body =
     \<lparr> req_url = (if prefix ''http'' endpoint then endpoint else GITHUB_API_BASE @ endpoint),
       req_method = meth,
       req_token = token,
       req_body = body \<rparr>"

text \<open>What \<^verbatim>\<open>githubFetch\<close> makes of the reply: a rejected \<^verbatim>\<open>fetch\<close> throws on, a status
  outside 200..299 throws a \<^verbatim>\<open>GitHubAPIError\<close> (reading \<^verbatim>\<open>message\<close> of a null body throws a
  TypeError instead), a 204 yields the empty object.\<close>

definition settle :: "reply \<Rightarrow> error + payload" where
  "settle rep =
     (case rep of
        Rejected \<Rightarrow> Inl (TypeError ''Failed to fetch'')
      | Reply r \<Rightarrow>
          if \<not> response_ok r then
            (case resp_error r of
               NullBody \<Rightarrow> Inl (TypeError ''Cannot read properties of null'')
             | Message m \<Rightarrow>
                 Inl (GitHubAPIError (resp_status r)
                        (if m \<noteq> [] then m else ''GitHub API error: '' @ resp_statusText r)))
          else if resp_status r = 204 then Inr EmptyResponse
          else Inr (resp_json r))"

definition githubFetch ::
  "'w server \<Rightarrow> string \<Rightarrow> string \<Rightarrow> http_method \<Rightarrow> request_body option \<Rightarrow> ('w, payload) io" where
  "githubFetch srv endpoint token meth body st =
     (let req = request_of endpoint token meth body;
          (rep, w') = srv (remote st) req
      in (settle rep, st\<lparr>remote := w', sent := sent st @ [req]\<rparr>))"

fun isNotFound :: "error \<Rightarrow> bool" where
  "isNotFound (GitHubAPIError s m) = (s = 404)"
| "isNotFound e = False"

fun isUnauthorized :: "error \<Rightarrow> bool" where
  "isUnauthorized (GitHubAPIError s m) = (s = 401)"
| "isUnauthorized e = False"

fun isForbidden :: "error \<Rightarrow> bool" where
  "isForbidden (GitHubAPIError s m) = (s = 403)"
| "isForbidden e = False"

fun isConflict :: "error \<Rightarrow> bool" where
  "isConflict (GitHubAPIError s m) = (s = 409)"
| "isConflict e = False"

text \<open>\<^verbatim>\<open>encodeURIComponent\<close> on a string of bytes.\<close>

definition hex_digit :: "nat \<Rightarrow> char" where
  "hex_digit n = digits ! (n mod 16)"

definition uri_unreserved :: "char \<Rightarrow> bool" where
  "uri_unreserved c =
     (let n = (of_char c :: nat) in
        (65 \<le> n \<and> n \<le> 90) \<or> (97 \<le> n \<and> n \<le> 122) \<or> (48 \<le> n \<and> n \<le> 57)
        \<or> n \<in> {45, 95, 46, 33, 126, 42, 39, 40, 41})"

definition encodeURIComponent :: "string \<Rightarrow> string" where
  "encodeURIComponent s =
     concat (map (\<lambda>c. if uri_unreserved c then [c]
                       else [CHR ''%'', hex_digit (of_char c div 16), hex_digit (of_char c mod 16)]) s)"

text \<open>A string that may be undefined, under \<^verbatim>\<open>if (s)\<close> and \<^verbatim>\<open>s || d\<close>.\<close>

fun truthy_str :: "string option \<Rightarrow> bool" where
  "truthy_str None = False"
| "truthy_str (Some s) = (s \<noteq> [])"

definition str_or :: "string option \<Rightarrow> string \<Rightarrow> string" where
  "str_or s d = (if truthy_str s then the s else d)"

definition contents_endpoint :: "string \<Rightarrow> string \<Rightarrow> string \<Rightarrow> string" where
  "contents_endpoint owner repo p = ''/repos/'' @ owner @ ''/'' @ repo @ ''/contents/'' @ p"

definition fetchContents ::
  "'w server \<Rightarrow> string \<Rightarrow> string \<Rightarrow> string \<Rightarrow> string \<Rightarrow> string option \<Rightarrow> ('w, payload) io" where
  "fetchContents srv owner repo p token ref =
     (let params = (if truthy_str ref then ''?ref='' @ encodeURIComponent (the ref) else [])
      in githubFetch srv (contents_endpoint owner repo p @ params) token GET None)"

text \<open>A response that is not a single content object (a directory listing, say) has no
  \<^verbatim>\<open>type\<close> property, and the first check throws.\<close>

definition fetchFileContent ::
  "'w server \<Rightarrow> string \<Rightarrow> string \<Rightarrow> string \<Rightarrow> string \<Rightarrow> string option
   \<Rightarrow> ('w, string \<times> string) io" where
  "fetchFileContent srv owner repo p token ref =
     await (fetchContents srv owner repo p token ref) (\<lambda>resp.
       case resp of
         ContentResponse c \<Rightarrow>
           if content_type c \<noteq> ''file'' then
             throw (Error (''Expected file but got '' @ content_type c))
           else if \<not> truthy_str (content_content c) then throw (Error ''File has no content'')
           else return (the (content_content c), content_sha c)
       | _ \<Rightarrow> throw (Error ''Expected file but got undefined''))"

text \<open>\<^verbatim>\<open>path.replace(/^\/+|\/+$/g, '')\<close>: leading and trailing slashes go.\<close>

definition normalizePath :: "string \<Rightarrow> string" where
  "normalizePath p =
     rev (dropWhile (\<lambda>c. c = CHR ''/'') (rev (dropWhile (\<lambda>c. c = CHR ''/'') p)))"

definition ref_endpoint :: "string \<Rightarrow> string \<Rightarrow> string \<Rightarrow> string" where
  "ref_endpoint owner repo branchRef =
     ''/repos/'' @ owner @ ''/'' @ repo @ ''/git/ref/heads/'' @ branchRef"

definition tree_endpoint :: "string \<Rightarrow> string \<Rightarrow> string \<Rightarrow> string" where
  "tree_endpoint owner repo tree_sha =
     ''/repos/'' @ owner @ ''/'' @ repo @ ''/git/trees/'' @ tree_sha @ ''?recursive=1''"

text \<open>The filter at the end of \<^verbatim>\<open>listFilesRecursively\<close>: blobs whose path starts with the
  normalized path.\<close>

definition inPath :: "string \<Rightarrow> GitHubTreeItem \<Rightarrow> bool" where
  "inPath normalizedPath item =
     (if item_type item \<noteq> Blob then False else prefix normalizedPath (item_path item))"

definition listFilesRecursively ::
  "'w server \<Rightarrow> string \<Rightarrow> string \<Rightarrow> string \<Rightarrow> string \<Rightarrow> string option
   \<Rightarrow> ('w, GitHubTreeItem list) io" where
  "listFilesRecursively srv owner repo p token branch =
     (let branchRef = str_or branch ''main'' in
      await (githubFetch srv (ref_endpoint owner repo branchRef) token GET None) (\<lambda>refResponse.
        case refResponse of
          RefResponse tree_sha \<Rightarrow>
            await (githubFetch srv (tree_endpoint owner repo tree_sha) token GET None)
              (\<lambda>treeResponse.
                case treeResponse of
                  TreeResponse tree truncated \<Rightarrow>
                    (let normalizedPath = normalizePath p
                     in return (filter (inPath normalizedPath) tree))
                | _ \<Rightarrow> throw (TypeError ''Cannot read properties of undefined''))
        | _ \<Rightarrow> throw (TypeError ''Cannot read properties of undefined'')))"

record CreateOrUpdateFileParams =
  p_owner :: string
  p_repo :: string
  p_path :: string
  p_content :: string
  p_message :: string
  p_sha :: "string option"
  p_branch :: "string option"

text \<open>The body of the PUT: \<^verbatim>\<open>sha\<close> and \<^verbatim>\<open>branch\<close> are assigned under \<^verbatim>\<open>if (sha)\<close> and
  \<^verbatim>\<open>if (branch)\<close> only.\<close>

definition put_body :: "CreateOrUpdateFileParams \<Rightarrow> request_body" where
  "put_body params =
     \<lparr> body_message = p_message params,
       body_content = Some (p_content params),
       body_sha = (if truthy_str (p_sha params) then p_sha params else None),
       body_branch = (if truthy_str (p_branch params) then p_branch params else None) \<rparr>"

definition createOrUpdateFile ::
  "'w server \<Rightarrow> CreateOrUpdateFileParams \<Rightarrow> string \<Rightarrow> ('w, payload) io" where
  "createOrUpdateFile srv params token =
     githubFetch srv (contents_endpoint (p_owner params) (p_repo params) (p_path params))
       token PUT (Some (put_body params))"

section \<open>The ticket store (api/github.ts)\<close>

definition KABANE_FOLDER :: string where
  "KABANE_FOLDER = ''.kabane''"

definition TICKETS_FOLDER :: string where
  "TICKETS_FOLDER = KABANE_FOLDER @ ''/tickets''"

text \<open>The body of the inner \<^verbatim>\<open>try\<close> of \<^verbatim>\<open>loadTickets\<close>: fetch one file and decode it.\<close>

definition loadTicketFile ::
  "'w server \<Rightarrow> (string \<Rightarrow> jsval option) \<Rightarrow> string \<Rightarrow> string \<Rightarrow> string \<Rightarrow> string option
   \<Rightarrow> GitHubTreeItem \<Rightarrow> ('w, ticket) io" where
  "loadTicketFile srv yaml_parse owner repo token branch file =
     await (fetchFileContent srv owner repo (item_path file) token branch) (\<lambda>(content, h).
       case parseTicketFile yaml_parse content (item_path file) h of
         Inl e \<Rightarrow> throw e
       | Inr t \<Rightarrow> return t)"

definition isTicketPath :: "string \<Rightarrow> bool" where
  "isTicketPath p = (suffix ''.yml'' p \<or> suffix ''.yaml'' p)"

text \<open>The \<^verbatim>\<open>for\<close> loop of \<^verbatim>\<open>loadTickets\<close>: a file of another suffix is passed over; a
  failure of the inner \<^verbatim>\<open>try\<close> is written to the console and the loop goes on.\<close>

fun loadEach ::
  "'w server \<Rightarrow> (string \<Rightarrow> jsval option) \<Rightarrow> string \<Rightarrow> string \<Rightarrow> string \<Rightarrow> string option
   \<Rightarrow> GitHubTreeItem list \<Rightarrow> ticket list \<Rightarrow> 'w world \<Rightarrow> ticket list \<times> 'w world" where
  "loadEach srv yaml_parse owner repo token branch [] tickets st = (tickets, st)"
| "loadEach srv yaml_parse owner repo token branch (file # files) tickets st =
     (if \<not> isTicketPath (item_path file) then
        loadEach srv yaml_parse owner repo token branch files tickets st
      else
        (case loadTicketFile srv yaml_parse owner repo token branch file st of
           (Inr t, st') \<Rightarrow>
             loadEach srv yaml_parse owner repo token branch files (tickets @ [t]) st'
         | (Inl e, st') \<Rightarrow>
             loadEach srv yaml_parse owner repo token branch files tickets
               (st'\<lparr>warned := warned st' @ [''Failed to load ticket '' @ item_path file @ '':'']\<rparr>)))"

definition loadTickets ::
  "'w server \<Rightarrow> (string \<Rightarrow> jsval option) \<Rightarrow> string \<Rightarrow> string \<Rightarrow> string \<Rightarrow> string option
   \<Rightarrow> ('w, ticket list) io" where
  "loadTickets srv yaml_parse owner repo token branch st =
     (case listFilesRecursively srv owner repo TICKETS_FOLDER token branch st of
        (Inl e, st') \<Rightarrow> if isNotFound e then (Inr [], st') else (Inl e, st')
      | (Inr files, st') \<Rightarrow>
          (case loadEach srv yaml_parse owner repo token branch files [] st' of
             (tickets, st'') \<Rightarrow> (Inr tickets, st'')))"

text \<open>\<^verbatim>\<open>updateTicket\<close>. The two clock readings are parameters: \<open>now1\<close> is read by
  \<^verbatim>\<open>serializeTicket\<close>, \<open>now2\<close> for the returned entity. The commit message starts with the
  memo emoji (U+1F4DD) in UTF-8.\<close>

definition update_message :: "ticket \<Rightarrow> string" where
  "update_message t =
     [CHR 0xF0, CHR 0x9F, CHR 0x93, CHR 0x9D] @ '' Update ticket: '' @ js_String (title t)"

definition updateTicket ::
  "'w server \<Rightarrow> (jsval \<Rightarrow> string) \<Rightarrow> string \<Rightarrow> string \<Rightarrow> string \<Rightarrow> string \<Rightarrow> ticket \<Rightarrow> string
   \<Rightarrow> string option \<Rightarrow> ('w, ticket) io" where
  "updateTicket srv yaml_stringify now1 now2 owner repo t token branch =
     await (createOrUpdateFile srv
              \<lparr> p_owner = owner,
                p_repo = repo,
                p_path = path t,
                p_content = serializeTicket yaml_stringify now1 t,
                p_message = update_message t,
                p_sha = Some (sha t),
                p_branch = branch \<rparr> token) (\<lambda>response.
       case response of
         CommitResponse c \<Rightarrow> return (t\<lparr>sha := content_sha c, updatedAt := JStr now2\<rparr>)
       | _ \<Rightarrow> throw (TypeError ''Cannot read properties of undefined''))"

section \<open>The asset store (api/github.ts)\<close>

definition ALLOWED_IMAGE_EXTENSIONS :: "string list" where
  "ALLOWED_IMAGE_EXTENSIONS = [''jpg'', ''jpeg'', ''png'', ''gif'', ''webp'', ''svg'']"

text \<open>\<^verbatim>\<open>toLowerCase\<close> on the ASCII letters (the model's characters are bytes).\<close>

definition lower_char :: "char \<Rightarrow> char" where
  "lower_char c =
     (if 65 \<le> (of_char c :: nat) \<and> (of_char c :: nat) \<le> 90 then char_of (of_char c + 32 :: nat)
      else c)"

definition toLowerCase :: "string \<Rightarrow> string" where
  "toLowerCase s = map lower_char s"

definition isValidImageExtension :: "string \<Rightarrow> bool" where
  "isValidImageExtension filename =
     (let ext = toLowerCase (split_pop CHR ''.'' filename)
      in if ext \<noteq> [] then ext \<in> set ALLOWED_IMAGE_EXTENSIONS else False)"

definition getImagePath :: "string \<Rightarrow> string \<Rightarrow> string" where
  "getImagePath ticketId imageName = ''.kabane/images/'' @ ticketId @ ''/'' @ imageName"

definition fetchRepository :: "'w server \<Rightarrow> string \<Rightarrow> string \<Rightarrow> string \<Rightarrow> ('w, payload) io" where
  "fetchRepository srv owner repo token =
     githubFetch srv (''/repos/'' @ owner @ ''/'' @ repo) token GET None"

text \<open>\<^verbatim>\<open>repository.default_branch\<close>: undefined (\<open>None\<close>) when the reply is an object of
  another shape.\<close>

definition getDefaultBranch ::
  "'w server \<Rightarrow> string \<Rightarrow> string \<Rightarrow> string \<Rightarrow> ('w, string option) io" where
  "getDefaultBranch srv owner repo token =
     await (fetchRepository srv owner repo token) (\<lambda>repository.
       case repository of
         RepositoryResponse default_branch \<Rightarrow> return (Some default_branch)
       | _ \<Rightarrow> return None)"

text \<open>A browser \<^verbatim>\<open>File\<close>: its name and what \<^verbatim>\<open>FileReader\<close> yields as base64, \<open>None\<close> when
  the reader fails.\<close>

record File =
  file_name :: string
  file_base64 :: "string option"

definition fileToBase64 :: "File \<Rightarrow> ('w, string) io" where
  "fileToBase64 file =
     (case file_base64 file of
        None \<Rightarrow> throw (Error ''FileReader error'')
      | Some b \<Rightarrow> return b)"

text \<open>\<^verbatim>\<open>name.replace(/[^a-zA-Z0-9.-]/g, '_')\<close>, character by character. The model's
  characters are bytes: a name outside ASCII, which the source replaces once per UTF-16 code
  unit, is outside the model.\<close>

definition keep_char :: "char \<Rightarrow> bool" where
  "keep_char c =
     (let n = (of_char c :: nat) in
        (97 \<le> n \<and> n \<le> 122) \<or> (65 \<le> n \<and> n \<le> 90) \<or> (48 \<le> n \<and> n \<le> 57) \<or> n = 46 \<or> n = 45)"

definition sanitize :: "string \<Rightarrow> string" where
  "sanitize name = map (\<lambda>c. if keep_char c then c else CHR ''_'') name"

text \<open>The stored name; \<open>timestamp\<close> is the reading of \<^verbatim>\<open>Date.now()\<close>.\<close>

definition imageNameOf :: "nat \<Rightarrow> string \<Rightarrow> string" where
  "imageNameOf timestamp name = show_nat timestamp @ ''-'' @ sanitize name"

definition invalid_extension :: error where
  "invalid_extension =
     Error (''Invalid image extension. Allowed: '' @ join '', '' ALLOWED_IMAGE_EXTENSIONS)"

definition uploadImage ::
  "'w server \<Rightarrow> nat \<Rightarrow> string \<Rightarrow> string \<Rightarrow> string \<Rightarrow> File \<Rightarrow> string \<Rightarrow> string option
   \<Rightarrow> ('w, string) io" where
  "uploadImage srv timestamp owner repo ticketId file token branch =
     (if \<not> isValidImageExtension (file_name file) then throw invalid_extension
      else
        await (fileToBase64 file) (\<lambda>content.
          let imageName = imageNameOf timestamp (file_name file);
              imagePath = getImagePath ticketId imageName
          in await (if truthy_str branch then return branch
                    else getDefaultBranch srv owner repo token) (\<lambda>targetBranch.
               await (githubFetch srv (contents_endpoint owner repo imagePath) token PUT
                        (Some \<lparr> body_message =
                                  ''Add image '' @ imageName @ '' for ticket '' @ ticketId,
                                body_content = Some content,
                                body_sha = None,
                                body_branch = targetBranch \<rparr>)) (\<lambda>created.
                 return imageName))))"


section \<open>The remote provider\<close>

text \<open>The resource a URL names: the URL without its query.\<close>

definition resource :: "string \<Rightarrow> string" where
  "resource u = takeWhile (\<lambda>c. c \<noteq> CHR ''?'') u"

definition ok_response :: "nat \<Rightarrow> payload \<Rightarrow> reply" where
  "ok_response code body =
     Reply \<lparr> resp_status = code, resp_statusText = ''OK'', resp_error = Message [],
             resp_json = body \<rparr>"

definition error_response :: "nat \<Rightarrow> string \<Rightarrow> reply" where
  "error_response code msg =
     Reply \<lparr> resp_status = code, resp_statusText = msg, resp_error = Message msg,
             resp_json = EmptyResponse \<rparr>"

definition stored_file :: "(string \<Rightarrow> string) \<Rightarrow> string \<Rightarrow> string \<Rightarrow> GitHubContent" where
  "stored_file hash u c =
     \<lparr> content_name = split_pop CHR ''/'' u, content_path = u, content_sha = hash c,
       content_type = ''file'', content_content = Some c \<rparr>"

text \<open>
  Modelled from the spec: the provider's single-file operations of section 4.1
  (\<^verbatim>\<open>getFile\<close>, \<^verbatim>\<open>putFile\<close>, \<^verbatim>\<open>deleteFile\<close>). The provider is the remote service, so none of
  this is in the repository; the client above only sends it requests. Its state maps a
  resource to the stored text; the content hash of a file is \<open>hash\<close> of its text, an opaque
  token. A write with no expected hash means "must not exist yet"; with an expected hash it
  means "must match the currently stored hash", and fails with Conflict (status 409), leaving
  the state as it was, when it does not. The spec leaves open what kind of failure a write
  with no expected hash to an existing file is; the model answers 422 there, and no statement
  below depends on that number.
\<close>

definition spec_provider :: "(string \<Rightarrow> string) \<Rightarrow> (string \<rightharpoonup> string) server" where
  "spec_provider hash files req =
     (let u = resource (req_url req) in
      case req_method req of
        GET \<Rightarrow>
          (case files u of
             None \<Rightarrow> (error_response 404 ''Not Found'', files)
           | Some c \<Rightarrow> (ok_response 200 (ContentResponse (stored_file hash u c)), files))
      | PUT \<Rightarrow>
          (case req_body req of
             None \<Rightarrow> (error_response 422 ''Invalid request'', files)
           | Some b \<Rightarrow>
               (case body_content b of
                  None \<Rightarrow> (error_response 422 ''Invalid request'', files)
                | Some c \<Rightarrow>
                    (case body_sha b of
                       None \<Rightarrow>
                         (if files u = None then
                            (ok_response 201 (CommitResponse (stored_file hash u c)), files(u \<mapsto> c))
                          else (error_response 422 ''Already exists'', files))
                     | Some h \<Rightarrow>
                         (if map_option hash (files u) = Some h then
                            (ok_response 200 (CommitResponse (stored_file hash u c)), files(u \<mapsto> c))
                          else (error_response 409 ''Conflict'', files)))))
      | DELETE \<Rightarrow>
          (case req_body req of
             None \<Rightarrow> (error_response 422 ''Invalid request'', files)
           | Some b \<Rightarrow>
               (case body_sha b of
                  None \<Rightarrow> (error_response 422 ''Invalid request'', files)
                | Some h \<Rightarrow>
                    (if map_option hash (files u) = Some h then
                       (ok_response 200 EmptyResponse, files(u := None))
                     else (error_response 409 ''Conflict'', files))))
      | _ \<Rightarrow> (error_response 404 ''Not Found'', files))"

section \<open>Notions of the specification\<close>



text \<open>The order of two timestamps in the format of \<^verbatim>\<open>toISOString\<close>: the strings compared
  character by character, which for that fixed-width format is the order in time.\<close>

fun timestamp_le :: "string \<Rightarrow> string \<Rightarrow> bool" where
  "timestamp_le [] ys = True"
| "timestamp_le (x # xs) [] = False"
| "timestamp_le (x # xs) (y # ys) =
     ((of_char x :: nat) < of_char y \<or> (x = y \<and> timestamp_le xs ys))"

text \<open>A provider whose reads leave its state as it is.\<close>

definition read_only :: "'w server \<Rightarrow> bool" where
  "read_only srv = (\<forall>w req. req_method req = GET \<longrightarrow> snd (srv w req) = w)"

text \<open>What fetching and decoding one listed file yields against the provider state \<open>w\<close>.\<close>

definition outcome ::
  "'w server \<Rightarrow> (string \<Rightarrow> jsval option) \<Rightarrow> string \<Rightarrow> string \<Rightarrow> string \<Rightarrow> string option
   \<Rightarrow> 'w \<Rightarrow> GitHubTreeItem \<Rightarrow> error + ticket" where
  "outcome srv yaml_parse owner repo token branch w file =
     fst (loadTicketFile srv yaml_parse owner repo token branch file
            \<lparr> remote = w, sent = [], warned = [] \<rparr>)"

text \<open>The listed ticket files, and the tickets of those that fetch and decode.\<close>

definition ticketFiles :: "GitHubTreeItem list \<Rightarrow> GitHubTreeItem list" where
  "ticketFiles files = filter (\<lambda>f. isTicketPath (item_path f)) files"

definition decoded ::
  "'w server \<Rightarrow> (string \<Rightarrow> jsval option) \<Rightarrow> string \<Rightarrow> string \<Rightarrow> string \<Rightarrow> string option
   \<Rightarrow> 'w \<Rightarrow> GitHubTreeItem list \<Rightarrow> ticket list" where
  "decoded srv yaml_parse owner repo token branch w files =
     concat (map (\<lambda>f. case outcome srv yaml_parse owner repo token branch w f of
                         Inl e \<Rightarrow> []
                       | Inr t \<Rightarrow> [t]) (ticketFiles files))"

definition malformed ::
  "'w server \<Rightarrow> (string \<Rightarrow> jsval option) \<Rightarrow> string \<Rightarrow> string \<Rightarrow> string \<Rightarrow> string option
   \<Rightarrow> 'w \<Rightarrow> GitHubTreeItem list \<Rightarrow> GitHubTreeItem list" where
  "malformed srv yaml_parse owner repo token branch w files =
     filter (\<lambda>f. isl (outcome srv yaml_parse owner repo token branch w f)) (ticketFiles files)"

text \<open>The request by which \<^verbatim>\<open>loadTickets\<close> fetches a listed file.\<close>

definition fetch_request :: "string \<Rightarrow> string \<Rightarrow> string \<Rightarrow> string option \<Rightarrow> string \<Rightarrow> request" where
  "fetch_request owner repo token branch p =
     \<lparr> req_url = GITHUB_API_BASE @ contents_endpoint owner repo p
                   @ (if truthy_str branch then ''?ref='' @ encodeURIComponent (the branch) else []),
       req_method = GET, req_token = token, req_body = None \<rparr>"


section \<open>Sample inputs\<close>

text \<open>A provider for examples: one repository \<^verbatim>\<open>acme/board\<close> on branch \<^verbatim>\<open>main\<close>, holding the
  tree \<open>full\<close> and the files \<open>files\<close> (path and text). It serves at most \<open>limit\<close> tree
  entries and raises the truncation flag when it holds more. It answers reads only.\<close>

definition sample_server ::
  "GitHubTreeItem list \<Rightarrow> nat \<Rightarrow> (string \<times> string) list \<Rightarrow> unit server" where
  "sample_server full limit files w req =
     (if req_method req \<noteq> GET then (error_response 403 ''Forbidden'', w)
      else if req_url req = GITHUB_API_BASE @ ref_endpoint ''acme'' ''board'' ''main'' then
        (ok_response 200 (RefResponse ''c0ffee''), w)
      else if req_url req = GITHUB_API_BASE @ tree_endpoint ''acme'' ''board'' ''c0ffee'' then
        (ok_response 200 (TreeResponse (take limit full) (limit < length full)), w)
      else
        (case find (\<lambda>(p, c). req_url req = GITHUB_API_BASE @ contents_endpoint ''acme'' ''board'' p)
                files of
           None \<Rightarrow> (error_response 404 ''Not Found'', w)
         | Some (p, c) \<Rightarrow>
             (ok_response 200
                (ContentResponse \<lparr> content_name = split_pop CHR ''/'' p, content_path = p,
                                   content_sha = ''sha-of-'' @ p, content_type = ''file'',
                                   content_content = Some c \<rparr>), w)))"

definition start :: "'w \<Rightarrow> 'w world" where
  "start w = \<lparr> remote = w, sent = [], warned = [] \<rparr>"

definition blob :: "string \<Rightarrow> GitHubTreeItem" where
  "blob p = \<lparr> item_path = p, item_type = Blob, item_sha = ''sha-of-'' @ p \<rparr>"

definition sample_now :: string where
  "sample_now = ''2026-11-02T10:00:00.000Z''"

definition sample_ticket :: ticket where
  "sample_ticket =
     \<lparr> ticket_id = ''t1'',
       path = ''.kabane/tickets/t1.yml'',
       sha = ''abc123'',
       title = JStr ''Fix login'',
       ticket_type = JStr ''bug'',
       status = JStr ''todo'',
       priority = Some ''high'',
       assignees = Some [''ada''],
       labels = None,
       parent = JUndefined,
       version = JUndefined,
       estimate = Some 3,
       dueDate = JUndefined,
       description = JUndefined,
       images = None,
       createdAt = JStr ''2026-01-01T00:00:00.000Z'',
       updatedAt = JStr ''2026-01-02T00:00:00.000Z'' \<rparr>"

text \<open>The same ticket as an edit form hands it over: an empty label list, and a
  timestamp written by a clock that runs ahead.\<close>

definition form_ticket :: ticket where
  "form_ticket = sample_ticket\<lparr>labels := Some [], updatedAt := JStr ''2030-01-01T00:00:00.000Z''\<rparr>"

definition sample_doc :: jsval where
  "sample_doc =
     JObj [(''title'', JStr ''Fix login''), (''type'', JStr ''bug''), (''status'', JStr ''todo''),
           (''priority'', JStr ''high''), (''assignees'', JArr [JStr ''ada'']),
           (''estimate'', JNum 3), (''createdAt'', JStr ''2026-01-01T00:00:00.000Z''),
           (''updatedAt'', JStr ''2026-11-02T10:00:00.000Z'')]"

definition sample_text :: string where
  "sample_text =
     ''title: Fix login\<newline>type: bug\<newline>status: todo\<newline>priority: high\<newline>''
     @ ''assignees:\<newline>  - ada\<newline>estimate: 3\<newline>''
     @ ''createdAt: 2026-01-01T00:00:00.000Z\<newline>updatedAt: 2026-11-02T10:00:00.000Z\<newline>''"

definition sample_items :: "jsval list" where
  "sample_items = [JObj [(''id'', JStr ''todo''), (''name'', JStr ''To Do'')]]"

text \<open>A YAML library for examples: it knows the documents of this table and no other text.\<close>

definition bare_text :: string where
  "bare_text = ''- id: todo\<newline>  name: To Do\<newline>''"

definition columns_text :: string where
  "columns_text = ''columns:\<newline>  - id: todo\<newline>    name: To Do\<newline>''"

definition types_text :: string where
  "types_text = ''ticketTypes:\<newline>  - id: todo\<newline>    name: To Do\<newline>''"

definition versions_text :: string where
  "versions_text = ''versions:\<newline>  - id: todo\<newline>    name: To Do\<newline>''"

definition sample_docs :: "(string \<times> jsval) list" where
  "sample_docs =
     [(sample_text, sample_doc),
      (bare_text, JArr sample_items),
      (columns_text, JObj [(''columns'', JArr sample_items)]),
      (types_text, JObj [(''ticketTypes'', JArr sample_items)]),
      (versions_text, JObj [(''versions'', JArr sample_items)])]"

definition sample_parse :: "string \<Rightarrow> jsval option" where
  "sample_parse content = map_of sample_docs content"

definition sample_stringify :: "jsval \<Rightarrow> string" where
  "sample_stringify data =
     (case find (\<lambda>(txt, d). d = data) sample_docs of None \<Rightarrow> [] | Some (txt, d) \<Rightarrow> txt)"

definition sample_hash :: "string \<Rightarrow> string" where
  "sample_hash c = ''sha-'' @ c"

definition sample_url :: string where
  "sample_url = ''https://api.github.com/repos/acme/board/contents/.kabane/tickets/t1.yml''"

text \<open>A provider state in which the ticket file has been changed by someone else.\<close>

definition changed_store :: "string \<rightharpoonup> string" where
  "changed_store = [sample_url \<mapsto> ''title: Fix login now\<newline>'']"

text \<open>A ticket that carries the empty string as its hash.\<close>

definition unsaved_ticket :: ticket where
  "unsaved_ticket = sample_ticket\<lparr>sha := []\<rparr>"

definition sample_file :: File where
  "sample_file = \<lparr> file_name = ''a.png'', file_base64 = Some ''iVBORw0KGgo='' \<rparr>"

text \<open>Three repositories for the sample provider: three ticket files of which the second is
  not YAML; two ticket files; and no tickets directory at all, but an archive beside it.\<close>

definition three_tickets :: "GitHubTreeItem list" where
  "three_tickets =
     [blob ''.kabane/tickets/t1.yml'', blob ''.kabane/tickets/t2.yml'',
      blob ''.kabane/tickets/t3.yaml'']"

definition three_texts :: "(string \<times> string) list" where
  "three_texts =
     [(''.kabane/tickets/t1.yml'', sample_text),
      (''.kabane/tickets/t2.yml'', ''title: [unclosed''),
      (''.kabane/tickets/t3.yaml'', sample_text)]"

definition two_tickets :: "GitHubTreeItem list" where
  "two_tickets = [blob ''.kabane/tickets/t1.yml'', blob ''.kabane/tickets/t3.yaml'']"

definition archive_only :: "GitHubTreeItem list" where
  "archive_only = [blob ''README.md'', blob ''.kabane/tickets-archive/a.yml'']"

definition archive_texts :: "(string \<times> string) list" where
  "archive_texts = [(''.kabane/tickets-archive/a.yml'', sample_text)]"

section \<open>Basic facts about the model\<close>

lemma request_of_method [simp]: "req_method (request_of e tok m b) = m"
  by (simp add: request_of_def)

lemma request_of_body [simp]: "req_body (request_of e tok m b) = b"
  by (simp add: request_of_def)

lemma request_of_contents_url [simp]:
  "req_url (request_of (contents_endpoint owner repo p) tok m b)
   = GITHUB_API_BASE @ contents_endpoint owner repo p"
  by (simp add: request_of_def contents_endpoint_def)

lemma githubFetch_fst:
  "remote st = remote st2 \<Longrightarrow>
   fst (githubFetch srv e tok m b st) = fst (githubFetch srv e tok m b st2)"
  by (simp add: githubFetch_def Let_def split: prod.splits)

lemma githubFetch_remote:
  "read_only srv \<Longrightarrow> remote (snd (githubFetch srv e tok GET b st)) = remote st"
proof -
  assume ro: "read_only srv"
  then have "snd (srv (remote st) (request_of e tok GET b)) = remote st"
    by (simp add: read_only_def)
  then show ?thesis
    by (auto simp: githubFetch_def Let_def split: prod.splits)
qed

lemma githubFetch_sent:
  "sent (snd (githubFetch srv e tok m b st)) = sent st @ [request_of e tok m b]"
  by (simp add: githubFetch_def Let_def split: prod.splits)

lemma githubFetch_warned:
  "warned (snd (githubFetch srv e tok m b st)) = warned st"
  by (simp add: githubFetch_def Let_def split: prod.splits)

text \<open>Three ways to look through an \<open>await\<close>: the result, the provider state, and the whole
  state when the continuation is pure.\<close>

lemma await_fst:
  assumes "fst (m st) = fst (m st2)"
    and "\<And>x. fst (m st) = Inr x \<Longrightarrow> fst (k x (snd (m st))) = fst (k x (snd (m st2)))"
  shows "fst (await m k st) = fst (await m k st2)"
  using assms by (cases "m st"; cases "m st2") (auto simp: await_def split: sum.splits)

lemma await_remote:
  assumes "remote (snd (m st)) = remote st"
    and "\<And>x st'. remote (snd (k x st')) = remote st'"
  shows "remote (snd (await m k st)) = remote st"
  using assms by (cases "m st") (auto simp: await_def split: sum.splits)

lemma await_pure:
  assumes "\<And>x s. snd (k x s) = s"
  shows "snd (await m k st) = snd (m st)"
  using assms by (cases "m st") (auto simp: await_def split: sum.splits)

subsection \<open>The sample inputs\<close>

lemma sample_data: "ticketData sample_now sample_ticket = sample_doc"
  by (simp add: ticketData_def sample_ticket_def sample_doc_def sample_now_def
      opt_val_def opt_str_def opt_list_def opt_num_def)

lemma unsaved_data: "ticketData sample_now unsaved_ticket = sample_doc"
  by (simp add: ticketData_def unsaved_ticket_def sample_ticket_def sample_doc_def sample_now_def
      opt_val_def opt_str_def opt_list_def opt_num_def)

lemma form_data: "ticketData sample_now form_ticket = sample_doc"
  by (simp add: ticketData_def form_ticket_def sample_ticket_def sample_doc_def sample_now_def
      opt_val_def opt_str_def opt_list_def opt_num_def)

lemma sample_print: "sample_stringify sample_doc = sample_text"
  by (simp add: sample_stringify_def sample_docs_def)

lemma sample_read: "sample_parse sample_text = Some sample_doc"
  by (simp add: sample_parse_def sample_docs_def)

lemma sample_lists:
  "sample_parse bare_text = Some (JArr sample_items)"
  "sample_parse columns_text = Some (JObj [(''columns'', JArr sample_items)])"
  "sample_parse types_text = Some (JObj [(''ticketTypes'', JArr sample_items)])"
  "sample_parse versions_text = Some (JObj [(''versions'', JArr sample_items)])"
  by (simp_all add: sample_parse_def sample_docs_def sample_text_def bare_text_def
      columns_text_def types_text_def versions_text_def)

lemma sample_resource:
  "resource (GITHUB_API_BASE @ contents_endpoint ''acme'' ''board'' ''.kabane/tickets/t1.yml'')
   = sample_url"
  by (simp add: resource_def GITHUB_API_BASE_def contents_endpoint_def sample_url_def)

section \<open>Listing and loading tickets\<close>

lemma fetchFileContent_fst:
  "remote st = remote st2 \<Longrightarrow>
   fst (fetchFileContent srv owner repo p token ref st)
   = fst (fetchFileContent srv owner repo p token ref st2)"
  unfolding fetchFileContent_def fetchContents_def Let_def
  by (rule await_fst, erule githubFetch_fst)
     (simp add: throw_def return_def split: payload.splits)

lemma loadTicketFile_fst:
  "remote st = remote st2 \<Longrightarrow>
   fst (loadTicketFile srv yp owner repo token branch f st)
   = fst (loadTicketFile srv yp owner repo token branch f st2)"
  unfolding loadTicketFile_def
  by (rule await_fst, erule fetchFileContent_fst)
     (simp add: throw_def return_def split: sum.splits prod.splits)

lemma fetchFileContent_remote:
  "read_only srv \<Longrightarrow> remote (snd (fetchFileContent srv owner repo p token ref st)) = remote st"
  unfolding fetchFileContent_def fetchContents_def Let_def
  by (rule await_remote) (auto simp: githubFetch_remote throw_def return_def split: payload.splits)

lemma loadTicketFile_remote:
  "read_only srv \<Longrightarrow>
   remote (snd (loadTicketFile srv yp owner repo token branch f st)) = remote st"
  unfolding loadTicketFile_def
  by (rule await_remote) (auto simp: fetchFileContent_remote throw_def return_def split: sum.splits)

lemma loadTicketFile_outcome:
  "fst (loadTicketFile srv yp owner repo token branch f st)
   = outcome srv yp owner repo token branch (remote st) f"
  unfolding outcome_def by (rule loadTicketFile_fst) simp

text \<open>The loop returns the tickets it had, followed by those of the files that load.\<close>

lemma loadEach_decoded:
  assumes ro: "read_only srv"
  shows "fst (loadEach srv yp owner repo token branch files acc st)
         = acc @ decoded srv yp owner repo token branch (remote st) files
       \<and> remote (snd (loadEach srv yp owner repo token branch files acc st)) = remote st"
proof (induction files arbitrary: acc st)
  case Nil
  show ?case by (simp add: decoded_def ticketFiles_def)
next
  case (Cons f fs)
  show ?case
  proof (cases "isTicketPath (item_path f)")
    case False
    with Cons show ?thesis by (simp add: decoded_def ticketFiles_def)
  next
    case True
    let ?o = "outcome srv yp owner repo token branch (remote st) f"
    obtain st' where run: "loadTicketFile srv yp owner repo token branch f st = (?o, st')"
      using loadTicketFile_outcome [of srv yp owner repo token branch f st]
      by (cases "loadTicketFile srv yp owner repo token branch f st") simp
    from run ro have w: "remote st' = remote st"
      using loadTicketFile_remote [of srv yp owner repo token branch f st] by simp
    show ?thesis
    proof (cases ?o)
      case (Inl e)
      let ?st = "st'\<lparr>warned := warned st' @ [''Failed to load ticket '' @ item_path f @ '':'']\<rparr>"
      have step: "loadEach srv yp owner repo token branch (f # fs) acc st
                  = loadEach srv yp owner repo token branch fs acc ?st"
        using True run Inl by simp
      have "remote ?st = remote st" using w by simp
      with Cons [of acc ?st] True Inl show ?thesis
        unfolding step by (simp add: decoded_def ticketFiles_def)
    next
      case (Inr t)
      have step: "loadEach srv yp owner repo token branch (f # fs) acc st
                  = loadEach srv yp owner repo token branch fs (acc @ [t]) st'"
        using True run Inr by simp
      from Cons [of "acc @ [t]" st'] True Inr w show ?thesis
        unfolding step by (simp add: decoded_def ticketFiles_def)
    qed
  qed
qed

lemma count_ok_failed:
  "length (concat (map (\<lambda>f. case g f of Inl e \<Rightarrow> [] | Inr t \<Rightarrow> [t]) xs))
   + length (filter (\<lambda>f. isl (g f)) xs) = length xs"
  by (induction xs) (auto split: sum.splits)

lemma decoded_length:
  "length (decoded srv yp owner repo token branch w files)
   + length (malformed srv yp owner repo token branch w files) = length (ticketFiles files)"
  unfolding decoded_def malformed_def by (rule count_ok_failed)

lemma request_of_contents:
  "request_of (contents_endpoint owner repo p
                 @ (if truthy_str branch then ''?ref='' @ encodeURIComponent (the branch) else []))
     token GET None
   = fetch_request owner repo token branch p"
  by (simp add: request_of_def fetch_request_def contents_endpoint_def)

lemma loadTicketFile_snd:
  "snd (loadTicketFile srv yp owner repo token branch f st)
   = snd (githubFetch srv (contents_endpoint owner repo (item_path f)
            @ (if truthy_str branch then ''?ref='' @ encodeURIComponent (the branch) else []))
          token GET None st)"
proof -
  have "snd (loadTicketFile srv yp owner repo token branch f st)
        = snd (fetchFileContent srv owner repo (item_path f) token branch st)"
    unfolding loadTicketFile_def
    by (rule await_pure) (simp add: throw_def return_def split: sum.splits prod.splits)
  also have "\<dots> = snd (fetchContents srv owner repo (item_path f) token branch st)"
    unfolding fetchFileContent_def
    by (rule await_pure) (simp add: throw_def return_def split: payload.splits)
  finally show ?thesis by (simp add: fetchContents_def Let_def)
qed

lemma loadTicketFile_sent:
  "sent (snd (loadTicketFile srv yp owner repo token branch f st))
   = sent st @ [fetch_request owner repo token branch (item_path f)]"
  by (simp only: loadTicketFile_snd githubFetch_sent request_of_contents)

lemma loadTicketFile_warned:
  "warned (snd (loadTicketFile srv yp owner repo token branch f st)) = warned st"
  by (simp only: loadTicketFile_snd githubFetch_warned)

text \<open>The loop asks for exactly the listed files with a ticket suffix, in order.\<close>

lemma loadEach_sent:
  "sent (snd (loadEach srv yp owner repo token branch files acc st))
   = sent st @ map (\<lambda>f. fetch_request owner repo token branch (item_path f)) (ticketFiles files)"
proof (induction files arbitrary: acc st)
  case Nil
  show ?case by (simp add: ticketFiles_def)
next
  case (Cons f fs)
  show ?case
  proof (cases "isTicketPath (item_path f)")
    case False
    with Cons show ?thesis by (simp add: ticketFiles_def)
  next
    case True
    obtain r st' where run: "loadTicketFile srv yp owner repo token branch f st = (r, st')"
      by (cases "loadTicketFile srv yp owner repo token branch f st")
    with loadTicketFile_sent [of srv yp owner repo token branch f st]
    have s: "sent st' = sent st @ [fetch_request owner repo token branch (item_path f)]" by simp
    show ?thesis
    proof (cases r)
      case (Inl e)
      let ?st = "st'\<lparr>warned := warned st' @ [''Failed to load ticket '' @ item_path f @ '':'']\<rparr>"
      from Cons [where acc = acc and st = ?st] s True run Inl show ?thesis
        by (simp add: ticketFiles_def)
    next
      case (Inr t)
      from Cons [where acc = "acc @ [t]" and st = st'] s True run Inr show ?thesis
        by (simp add: ticketFiles_def)
    qed
  qed
qed

lemma listFilesRecursively_run:
  assumes ref: "githubFetch srv (ref_endpoint owner repo (str_or branch ''main'')) token GET None st
                = (Inr (RefResponse h), st1)"
    and tr: "githubFetch srv (tree_endpoint owner repo h) token GET None st1
             = (Inr (TreeResponse tree truncated), st2)"
  shows "listFilesRecursively srv owner repo p token branch st
         = (Inr (filter (inPath (normalizePath p)) tree), st2)"
  using ref tr by (simp add: listFilesRecursively_def await_def return_def Let_def)

lemma listFilesRecursively_remote:
  "read_only srv \<Longrightarrow>
   remote (snd (listFilesRecursively srv owner repo p token branch st)) = remote st"
  unfolding listFilesRecursively_def Let_def
  apply (rule await_remote)
   apply (simp add: githubFetch_remote)
  apply (simp split: payload.splits add: throw_def)
  apply (intro allI impI)
  apply (rule await_remote)
   apply (simp add: githubFetch_remote)
  apply (simp split: payload.splits add: throw_def return_def)
  done

lemma loadTickets_run:
  assumes ro: "read_only srv"
    and listing: "listFilesRecursively srv owner repo TICKETS_FOLDER token branch st = (Inr files, st1)"
  shows "fst (loadTickets srv yp owner repo token branch st)
         = Inr (decoded srv yp owner repo token branch (remote st) files)"
proof -
  from listFilesRecursively_remote [OF ro, of owner repo TICKETS_FOLDER token branch st] listing
  have w: "remote st1 = remote st" by simp
  from loadEach_decoded [OF ro, of yp owner repo token branch files "[]" st1] w
  have "fst (loadEach srv yp owner repo token branch files [] st1)
        = decoded srv yp owner repo token branch (remote st) files" by simp
  with listing show ?thesis
    by (auto simp: loadTickets_def split: prod.splits)
qed

lemma normalize_tickets: "normalizePath TICKETS_FOLDER = TICKETS_FOLDER"
  by (simp add: normalizePath_def TICKETS_FOLDER_def KABANE_FOLDER_def)

subsection \<open>The sample provider\<close>

lemma blob_path [simp]: "item_path (blob p) = p"
  by (simp add: blob_def)

lemma blob_type [simp]: "item_type (blob p) = Blob"
  by (simp add: blob_def)

lemma sample_server_read_only: "read_only (sample_server full limit files)"
  by (simp add: read_only_def sample_server_def split: option.splits)

lemma sample_ref:
  "githubFetch (sample_server full limit files) (ref_endpoint ''acme'' ''board'' ''main'')
     token GET None st
   = (Inr (RefResponse ''c0ffee''),
      st\<lparr>sent := sent st @ [request_of (ref_endpoint ''acme'' ''board'' ''main'') token GET None]\<rparr>)"
  by (simp add: githubFetch_def Let_def sample_server_def request_of_def ref_endpoint_def
      settle_def ok_response_def response_ok_def)

lemma sample_tree:
  "githubFetch (sample_server full limit files) (tree_endpoint ''acme'' ''board'' ''c0ffee'')
     token GET None st
   = (Inr (TreeResponse (take limit full) (limit < length full)),
      st\<lparr>sent := sent st @ [request_of (tree_endpoint ''acme'' ''board'' ''c0ffee'') token GET None]\<rparr>)"
  by (simp add: githubFetch_def Let_def sample_server_def request_of_def ref_endpoint_def
      tree_endpoint_def GITHUB_API_BASE_def settle_def ok_response_def response_ok_def)

lemma sample_listing:
  "listFilesRecursively (sample_server full limit files) ''acme'' ''board'' p token None st
   = (Inr (filter (inPath (normalizePath p)) (take limit full)),
      st\<lparr>sent := sent st @ [request_of (ref_endpoint ''acme'' ''board'' ''main'') token GET None,
                            request_of (tree_endpoint ''acme'' ''board'' ''c0ffee'') token GET None]\<rparr>)"
  by (simp add: listFilesRecursively_def str_or_def await_def sample_ref sample_tree return_def)

lemma sample_doc_ticket:
  "ticketOfData sample_doc p h
   = Inr (sample_ticket\<lparr>ticket_id := extractTicketId p, path := p, sha := h,
                         updatedAt := JStr sample_now\<rparr>)"
  by (simp add: ticketOfData_def sample_doc_def js_or_def validPriorities_def
      sample_ticket_def sample_now_def)

lemma sample_contents_url:
  "(req_url (request_of (contents_endpoint ''acme'' ''board'' p) token GET None)
     = GITHUB_API_BASE @ contents_endpoint ''acme'' ''board'' q) = (p = q)"
  by (simp add: request_of_def contents_endpoint_def)

text \<open>What the sample provider makes of fetching and decoding one listed file.\<close>

lemma sample_outcome:
  "outcome (sample_server full limit files) yp ''acme'' ''board'' token None w (blob p)
   = (case find (\<lambda>(q, c). p = q) files of
        None \<Rightarrow> Inl (GitHubAPIError 404 ''Not Found'')
      | Some (q, c) \<Rightarrow>
          if c = [] then Inl (Error ''File has no content'')
          else parseTicketFile yp c p (''sha-of-'' @ q))"
  by (simp add: outcome_def loadTicketFile_def fetchFileContent_def fetchContents_def
      githubFetch_def Let_def await_def sample_server_def sample_contents_url blob_def
      request_of_def contents_endpoint_def ref_endpoint_def tree_endpoint_def GITHUB_API_BASE_def
      settle_def ok_response_def error_response_def response_ok_def throw_def return_def
      split: option.splits sum.splits)

lemma sample_text_ticket:
  "parseTicketFile sample_parse sample_text p h
   = Inr (sample_ticket\<lparr>ticket_id := extractTicketId p, path := p, sha := h,
                         updatedAt := JStr sample_now\<rparr>)"
  by (simp add: parseTicketFile_def parseYaml_def sample_read sample_doc_ticket)

lemma sample_text_nonempty: "sample_text \<noteq> []"
  by (simp add: sample_text_def)

lemma broken_text: "parseTicketFile sample_parse ''title: [unclosed'' p h = Inl (Error ''Invalid YAML format'')"
  by (simp add: parseTicketFile_def parseYaml_def sample_parse_def sample_docs_def sample_text_def
      bare_text_def columns_text_def types_text_def versions_text_def)

lemma ids: "extractTicketId ''.kabane/tickets/t1.yml'' = ''t1''"
  "extractTicketId ''.kabane/tickets/t3.yaml'' = ''t3''"
  "extractTicketId ''.kabane/tickets-archive/a.yml'' = ''a''"
  by (simp_all add: extractTicketId_def split_pop_def strip_yml_def suffix_to_prefix)

lemma three_outcomes:
  "outcome (sample_server full limit three_texts) sample_parse ''acme'' ''board'' token None w
     (blob ''.kabane/tickets/t1.yml'')
   = Inr (sample_ticket\<lparr>sha := ''sha-of-.kabane/tickets/t1.yml'', updatedAt := JStr sample_now\<rparr>)"
  "outcome (sample_server full limit three_texts) sample_parse ''acme'' ''board'' token None w
     (blob ''.kabane/tickets/t2.yml'')
   = Inl (Error ''Invalid YAML format'')"
  "outcome (sample_server full limit three_texts) sample_parse ''acme'' ''board'' token None w
     (blob ''.kabane/tickets/t3.yaml'')
   = Inr (sample_ticket\<lparr>ticket_id := ''t3'', path := ''.kabane/tickets/t3.yaml'',
                         sha := ''sha-of-.kabane/tickets/t3.yaml'',
                         updatedAt := JStr sample_now\<rparr>)"
  by (simp_all add: sample_outcome three_texts_def sample_text_nonempty sample_text_ticket
      broken_text ids sample_ticket_def)

lemma archive_outcome:
  "outcome (sample_server full limit archive_texts) sample_parse ''acme'' ''board'' token None w
     (blob ''.kabane/tickets-archive/a.yml'')
   = Inr (sample_ticket\<lparr>ticket_id := ''a'', path := ''.kabane/tickets-archive/a.yml'',
                         sha := ''sha-of-.kabane/tickets-archive/a.yml'',
                         updatedAt := JStr sample_now\<rparr>)"
  by (simp add: sample_outcome archive_texts_def sample_text_nonempty sample_text_ticket ids)

lemma ticket_paths:
  "isTicketPath ''.kabane/tickets/t1.yml''" "isTicketPath ''.kabane/tickets/t2.yml''"
  "isTicketPath ''.kabane/tickets/t3.yaml''" "isTicketPath ''.kabane/tickets-archive/a.yml''"
  "\<not> isTicketPath ''README.md''"
  by (simp_all add: isTicketPath_def suffix_to_prefix)

lemma in_tickets:
  "inPath TICKETS_FOLDER (blob ''.kabane/tickets/t1.yml'')"
  "inPath TICKETS_FOLDER (blob ''.kabane/tickets/t2.yml'')"
  "inPath TICKETS_FOLDER (blob ''.kabane/tickets/t3.yaml'')"
  "inPath TICKETS_FOLDER (blob ''.kabane/tickets-archive/a.yml'')"
  "\<not> inPath TICKETS_FOLDER (blob ''README.md'')"
  by (simp_all add: inPath_def blob_def TICKETS_FOLDER_def KABANE_FOLDER_def)

section \<open>Hash-gated writes\<close>

lemma settle_conflict:
  "settle (error_response 409 msg)
   = Inl (GitHubAPIError 409 (if msg \<noteq> [] then msg else ''GitHub API error: '' @ msg))"
  by (simp add: settle_def error_response_def response_ok_def)

lemma put_conflict:
  assumes "truthy_str (p_sha params)"
    and "map_option hash (remote st (resource (GITHUB_API_BASE
            @ contents_endpoint (p_owner params) (p_repo params) (p_path params)))) \<noteq> p_sha params"
  shows "createOrUpdateFile (spec_provider hash) params token st
         = (Inl (GitHubAPIError 409 ''Conflict''),
            st\<lparr>sent := sent st @ [request_of (contents_endpoint (p_owner params) (p_repo params)
                   (p_path params)) token PUT (Some (put_body params))]\<rparr>)"
proof -
  from assms obtain h where h: "p_sha params = Some h" "h \<noteq> []"
    by (cases "p_sha params") auto
  with assms(2) have miss: "map_option hash (remote st (resource (GITHUB_API_BASE
            @ contents_endpoint (p_owner params) (p_repo params) (p_path params)))) \<noteq> Some h"
    by simp
  have body: "body_sha (put_body params) = Some h"
    "body_content (put_body params) = Some (p_content params)"
    using h by (simp_all add: put_body_def)
  show ?thesis
    unfolding createOrUpdateFile_def githubFetch_def Let_def
    using miss by (auto simp: spec_provider_def Let_def body settle_conflict)
qed

text \<open>
  C1, as amended. Against a provider that gates writes as section 4.1 of the specification
  says, a write through \<^verbatim>\<open>createOrUpdateFile\<close> with a non-empty expected hash \<open>h\<close> that is not
  the hash of the text now stored at the path fails with an error classified as Conflict and
  leaves the provider's state as it was; so does \<^verbatim>\<open>updateTicket\<close> for every ticket whose hash
  is \<open>h\<close> and whose path is the one written. (A file that is absent has no hash, so no
  expected hash matches it.)
\<close>

theorem stale_hash_conflict:
  assumes "h \<noteq> []"
    and "map_option hash (remote st (resource (GITHUB_API_BASE @ contents_endpoint owner repo p)))
         \<noteq> Some h"
  shows "(case createOrUpdateFile (spec_provider hash)
               \<lparr> p_owner = owner, p_repo = repo, p_path = p, p_content = content,
                 p_message = message, p_sha = Some h, p_branch = branch \<rparr> token st of
            (Inl e, st') \<Rightarrow> isConflict e \<and> remote st' = remote st
          | (Inr r, st') \<Rightarrow> False)
       \<and> (sha t = h \<and> path t = p \<longrightarrow>
           (case updateTicket (spec_provider hash) ys now1 now2 owner repo t token branch st of
              (Inl e, st') \<Rightarrow> isConflict e \<and> remote st' = remote st
            | (Inr r, st') \<Rightarrow> False))"
  using assms
  by (simp add: put_conflict updateTicket_def await_def)

text \<open>The amended claim at work: the sample ticket carries the hash \<^verbatim>\<open>abc123\<close>, the file
  has been changed remotely, and the update is refused as a conflict.\<close>

theorem stale_hash_conflict_witness:
  "sha sample_ticket \<noteq> []
   \<and> map_option sample_hash (changed_store sample_url) \<noteq> Some (sha sample_ticket)
   \<and> (case updateTicket (spec_provider sample_hash) sample_stringify sample_now sample_now
              ''acme'' ''board'' sample_ticket ''token'' None (start changed_store) of
         (Inl e, st') \<Rightarrow> isConflict e \<and> remote st' = changed_store
       | (Inr r, st') \<Rightarrow> False)"
proof -
  have p: "path sample_ticket = ''.kabane/tickets/t1.yml''"
    by (simp add: sample_ticket_def)
  have a: "sha sample_ticket \<noteq> []"
    by (simp add: sample_ticket_def)
  have b: "map_option sample_hash (changed_store sample_url) \<noteq> Some (sha sample_ticket)"
    by (simp add: changed_store_def sample_hash_def sample_ticket_def)
  then have b': "map_option sample_hash (remote (start changed_store)
           (resource (GITHUB_API_BASE @ contents_endpoint ''acme'' ''board'' (path sample_ticket))))
         \<noteq> Some (sha sample_ticket)"
    by (simp add: p sample_resource start_def)
  from stale_hash_conflict [OF a b', where t = sample_ticket and ys = sample_stringify
      and ?now1.0 = sample_now and ?now2.0 = sample_now and token = "''token''" and branch = None]
  have "case updateTicket (spec_provider sample_hash) sample_stringify sample_now sample_now
              ''acme'' ''board'' sample_ticket ''token'' None (start changed_store) of
         (Inl e, st') \<Rightarrow> isConflict e \<and> remote st' = remote (start changed_store)
       | (Inr r, st') \<Rightarrow> False"
    by simp
  then have "case updateTicket (spec_provider sample_hash) sample_stringify sample_now sample_now
              ''acme'' ''board'' sample_ticket ''token'' None (start changed_store) of
         (Inl e, st') \<Rightarrow> isConflict e \<and> remote st' = changed_store
       | (Inr r, st') \<Rightarrow> False"
    by (simp add: start_def split: prod.splits sum.splits)
  with a b show ?thesis by simp
qed

text \<open>
  C1 as stated fails for the empty hash. The ticket below carries the hash \<^verbatim>\<open>''\<close>; nothing
  is stored at its path, so the supplied hash matches no remote hash. The request goes out
  with no expected hash, the provider takes it as a creation, the operation succeeds and the
  remote state has changed.
\<close>

theorem empty_hash_not_gated:
  "map_option sample_hash (Map.empty sample_url) \<noteq> Some (sha unsaved_ticket)
   \<and> fst (updateTicket (spec_provider sample_hash) sample_stringify sample_now sample_now
            ''acme'' ''board'' unsaved_ticket ''token'' None (start Map.empty))
       = Inr (unsaved_ticket\<lparr>sha := sample_hash sample_text, updatedAt := JStr sample_now\<rparr>)
   \<and> remote (snd (updateTicket (spec_provider sample_hash) sample_stringify sample_now sample_now
            ''acme'' ''board'' unsaved_ticket ''token'' None (start Map.empty))) sample_url
       = Some sample_text"
proof -
  have p: "path unsaved_ticket = ''.kabane/tickets/t1.yml''" "sha unsaved_ticket = []"
    by (simp_all add: unsaved_ticket_def sample_ticket_def)
  have s: "serializeTicket sample_stringify sample_now unsaved_ticket = sample_text"
    by (simp add: serializeTicket_def serializeYaml_def unsaved_data sample_print)
  show ?thesis
    by (simp add: updateTicket_def await_def createOrUpdateFile_def githubFetch_def Let_def
        put_body_def p s sample_resource spec_provider_def start_def settle_def ok_response_def
        response_ok_def stored_file_def return_def)
qed

section \<open>The empty hash\<close>

text \<open>
  C2. For every ticket whose \<^verbatim>\<open>sha\<close> is the empty string, \<^verbatim>\<open>updateTicket\<close> issues exactly one
  request, a PUT to the contents endpoint of the ticket's path, and the body of that request
  has no \<^verbatim>\<open>sha\<close> field: the truthiness check of \<^verbatim>\<open>createOrUpdateFile\<close> leaves it out. This
  holds whatever the provider answers.
\<close>

theorem updateTicket_empty_sha_omitted:
  "sha t = [] \<Longrightarrow>
   sent (snd (updateTicket srv ys now1 now2 owner repo t token branch st)) =
   sent st @ [\<lparr> req_url = GITHUB_API_BASE @ contents_endpoint owner repo (path t),
                 req_method = PUT, req_token = token,
                 req_body = Some \<lparr> body_message = update_message t,
                                    body_content = Some (serializeTicket ys now1 t),
                                    body_sha = None,
                                    body_branch = (if truthy_str branch then branch else None) \<rparr> \<rparr>]"
proof -
  assume e: "sha t = []"
  let ?params = "\<lparr> p_owner = owner, p_repo = repo, p_path = path t,
                   p_content = serializeTicket ys now1 t, p_message = update_message t,
                   p_sha = Some (sha t), p_branch = branch \<rparr>"
  have "snd (updateTicket srv ys now1 now2 owner repo t token branch st)
        = snd (createOrUpdateFile srv ?params token st)"
    unfolding updateTicket_def
    by (rule await_pure) (simp add: return_def throw_def split: payload.splits)
  then show ?thesis
    using e
    by (simp add: createOrUpdateFile_def githubFetch_sent put_body_def request_of_def
        contents_endpoint_def)
qed

theorem updateTicket_empty_sha_omitted_witness:
  "sha unsaved_ticket = []
   \<and> map (\<lambda>r. (req_method r, map_option body_sha (req_body r)))
        (sent (snd (updateTicket (spec_provider sample_hash) sample_stringify sample_now
                      sample_now ''acme'' ''board'' unsaved_ticket ''token'' None
                      (start changed_store))))
     = [(PUT, Some None)]"
proof -
  have e: "sha unsaved_ticket = []"
    by (simp add: unsaved_ticket_def)
  from updateTicket_empty_sha_omitted [OF e, where srv = "spec_provider sample_hash"
      and st = "start changed_store"]
  show ?thesis
    using e by (simp add: start_def)
qed

section \<open>The ticket codec round trip\<close>

lemma map_of_opt_val:
  "map_of (opt_val k v) k' = (if k' = k \<and> truthy v then Some v else None)"
  by (simp add: opt_val_def)

lemma map_of_opt_str:
  "map_of (opt_str k v) k' =
     (case v of None \<Rightarrow> None | Some s \<Rightarrow> if k' = k \<and> s \<noteq> [] then Some (JStr s) else None)"
  by (simp add: opt_str_def split: option.splits)

lemma map_of_opt_list:
  "map_of (opt_list k v) k' =
     (case v of None \<Rightarrow> None
      | Some xs \<Rightarrow> if k' = k \<and> xs \<noteq> [] then Some (JArr (map JStr xs)) else None)"
  by (simp add: opt_list_def split: option.splits)

lemma map_of_opt_num:
  "map_of (opt_num k v) k' =
     (case v of None \<Rightarrow> None | Some n \<Rightarrow> if k' = k then Some (JNum n) else None)"
  by (simp add: opt_num_def split: option.splits)

lemmas opt_lookups = map_of_opt_val map_of_opt_str map_of_opt_list map_of_opt_num

text \<open>What each key of the encoded document reads as.\<close>

lemma data_title: "getProp (ticketData now t) ''title'' = title t"
  by (simp add: ticketData_def)

lemma data_type: "getProp (ticketData now t) ''type'' = ticket_type t"
  by (simp add: ticketData_def)

lemma data_status: "getProp (ticketData now t) ''status'' = status t"
  by (simp add: ticketData_def)

lemma data_priority:
  "getProp (ticketData now t) ''priority'' =
     (case priority t of None \<Rightarrow> JUndefined | Some s \<Rightarrow> if s \<noteq> [] then JStr s else JUndefined)"
  by (simp add: ticketData_def map_add_def opt_lookups split: option.splits)

lemma data_assignees:
  "getProp (ticketData now t) ''assignees'' =
     (case assignees t of None \<Rightarrow> JUndefined
      | Some xs \<Rightarrow> if xs \<noteq> [] then JArr (map JStr xs) else JUndefined)"
  by (simp add: ticketData_def map_add_def opt_lookups split: option.splits)

lemma data_labels:
  "getProp (ticketData now t) ''labels'' =
     (case labels t of None \<Rightarrow> JUndefined
      | Some xs \<Rightarrow> if xs \<noteq> [] then JArr (map JStr xs) else JUndefined)"
  by (simp add: ticketData_def map_add_def opt_lookups split: option.splits)

lemma data_images:
  "getProp (ticketData now t) ''images'' =
     (case images t of None \<Rightarrow> JUndefined
      | Some xs \<Rightarrow> if xs \<noteq> [] then JArr (map JStr xs) else JUndefined)"
  by (simp add: ticketData_def map_add_def opt_lookups split: option.splits)

lemma data_parent:
  "getProp (ticketData now t) ''parent'' = (if truthy (parent t) then parent t else JUndefined)"
  by (simp add: ticketData_def map_add_def opt_lookups split: option.splits)

lemma data_version:
  "getProp (ticketData now t) ''version'' = (if truthy (version t) then version t else JUndefined)"
  by (simp add: ticketData_def map_add_def opt_lookups split: option.splits)

lemma data_dueDate:
  "getProp (ticketData now t) ''dueDate'' = (if truthy (dueDate t) then dueDate t else JUndefined)"
  by (simp add: ticketData_def map_add_def opt_lookups split: option.splits)

lemma data_description:
  "getProp (ticketData now t) ''description''
   = (if truthy (description t) then description t else JUndefined)"
  by (simp add: ticketData_def map_add_def opt_lookups split: option.splits)

lemma data_createdAt:
  "getProp (ticketData now t) ''createdAt''
   = (if truthy (createdAt t) then createdAt t else JUndefined)"
  by (simp add: ticketData_def map_add_def opt_lookups split: option.splits)

lemma data_estimate:
  "getProp (ticketData now t) ''estimate''
   = (case estimate t of None \<Rightarrow> JUndefined | Some n \<Rightarrow> JNum n)"
  by (simp add: ticketData_def map_add_def opt_lookups split: option.splits)

lemma data_updatedAt: "getProp (ticketData now t) ''updatedAt'' = JStr now"
  by (simp add: ticketData_def map_add_def opt_lookups split: option.splits)

lemma data_not_nullish: "\<not> nullish (ticketData now t)"
  by (simp add: ticketData_def)

lemma map_js_String_JStr: "map (js_String \<circ> JStr) xs = xs"
  by (induction xs) simp_all

text \<open>
  C3, as amended. Take a ticket whose id is the file-name stem of its path; whose title, type
  and status are truthy (for strings: non-empty); whose priority is absent or one of low,
  medium, high, critical; whose assignees, labels and images are each absent or a non-empty
  list; and whose parent, version, due date, description and creation timestamp are each
  absent or truthy. If the YAML library reads back the document it printed, then
  \<^verbatim>\<open>parseTicketFile(serializeTicket(t), t.path, t.sha)\<close> reproduces every field of \<open>t\<close> except
  the updated-timestamp, which is the clock reading \<open>now\<close> that \<^verbatim>\<open>serializeTicket\<close> took.
\<close>

theorem ticket_round_trip:
  assumes lib: "yaml_parse (yaml_stringify (ticketData now t)) = Some (ticketData now t)"
    and tid: "ticket_id t = extractTicketId (path t)"
    and req: "truthy (title t)" "truthy (ticket_type t)" "truthy (status t)"
    and prio: "priority t = None \<or> (\<exists>p \<in> set validPriorities. priority t = Some p)"
    and lists: "assignees t \<noteq> Some []" "labels t \<noteq> Some []" "images t \<noteq> Some []"
    and opts: "parent t = JUndefined \<or> truthy (parent t)"
              "version t = JUndefined \<or> truthy (version t)"
              "dueDate t = JUndefined \<or> truthy (dueDate t)"
              "description t = JUndefined \<or> truthy (description t)"
              "createdAt t = JUndefined \<or> truthy (createdAt t)"
  shows "parseTicketFile yaml_parse (serializeTicket yaml_stringify now t) (path t) (sha t)
         = Inr (t\<lparr>updatedAt := JStr now\<rparr>)"
proof -
  have p: "validatePriority (getProp (ticketData now t) ''priority'') = priority t"
    using prio by (auto simp: data_priority validPriorities_def)
  have l: "normalizeArray (getProp (ticketData now t) ''assignees'') = assignees t"
       "normalizeArray (getProp (ticketData now t) ''labels'') = labels t"
       "normalizeArray (getProp (ticketData now t) ''images'') = images t"
    using lists
    by (auto simp: data_assignees data_labels data_images map_js_String_JStr
        split: option.splits)
  have e: "number_or_undefined (getProp (ticketData now t) ''estimate'') = estimate t"
    by (simp add: data_estimate split: option.splits)
  have o: "getProp (ticketData now t) ''parent'' = parent t"
      "getProp (ticketData now t) ''version'' = version t"
      "getProp (ticketData now t) ''dueDate'' = dueDate t"
      "getProp (ticketData now t) ''description'' = description t"
      "getProp (ticketData now t) ''createdAt'' = createdAt t"
    using opts
    by (auto simp: data_parent data_version data_dueDate data_description data_createdAt)
  have r: "js_or (getProp (ticketData now t) ''title'') d = title t"
       "js_or (getProp (ticketData now t) ''type'') d' = ticket_type t"
       "js_or (getProp (ticketData now t) ''status'') d'' = status t" for d d' d''
    using req by (simp_all add: js_or_def data_title data_type data_status)
  have "ticketOfData (ticketData now t) (path t) (sha t) = Inr (t\<lparr>updatedAt := JStr now\<rparr>)"
    unfolding ticketOfData_def Let_def
    by (simp add: data_not_nullish p l e o r data_updatedAt tid [symmetric])
  then show ?thesis
    by (simp add: parseTicketFile_def serializeTicket_def serializeYaml_def parseYaml_def lib)
qed

lemma sample_id: "extractTicketId ''.kabane/tickets/t1.yml'' = ''t1''"
  by (simp add: extractTicketId_def split_pop_def strip_yml_def suffix_to_prefix)

theorem ticket_round_trip_witness:
  "ticket_id sample_ticket = extractTicketId (path sample_ticket)
   \<and> sample_parse (sample_stringify (ticketData sample_now sample_ticket))
       = Some (ticketData sample_now sample_ticket)
   \<and> parseTicketFile sample_parse (serializeTicket sample_stringify sample_now sample_ticket)
        (path sample_ticket) (sha sample_ticket)
       = Inr (sample_ticket\<lparr>updatedAt := JStr sample_now\<rparr>)"
proof -
  have lib: "sample_parse (sample_stringify (ticketData sample_now sample_ticket))
             = Some (ticketData sample_now sample_ticket)"
    by (simp add: sample_data sample_print sample_read)
  have tid: "ticket_id sample_ticket = extractTicketId (path sample_ticket)"
    by (simp add: sample_ticket_def sample_id)
  have "parseTicketFile sample_parse (serializeTicket sample_stringify sample_now sample_ticket)
          (path sample_ticket) (sha sample_ticket)
        = Inr (sample_ticket\<lparr>updatedAt := JStr sample_now\<rparr>)"
    by (rule ticket_round_trip [where yaml_parse = sample_parse
          and yaml_stringify = sample_stringify and now = sample_now and t = sample_ticket,
          OF lib tid])
       (simp_all add: sample_ticket_def validPriorities_def)
  with lib tid show ?thesis by simp
qed

text \<open>
  C3 as stated fails on a ticket as the edit form builds it: the empty label list comes back
  absent, and the updated-timestamp that comes back is the clock reading, here earlier than
  the timestamp the ticket carried.
\<close>

theorem ticket_round_trip_loses_empty_list:
  "labels form_ticket = Some []
   \<and> updatedAt form_ticket = JStr ''2030-01-01T00:00:00.000Z''
   \<and> \<not> timestamp_le ''2030-01-01T00:00:00.000Z'' sample_now
   \<and> parseTicketFile sample_parse (serializeTicket sample_stringify sample_now form_ticket)
        (path form_ticket) (sha form_ticket)
       = Inr (form_ticket\<lparr>labels := None, updatedAt := JStr sample_now\<rparr>)"
proof -
  have s: "serializeTicket sample_stringify sample_now form_ticket = sample_text"
    by (simp add: serializeTicket_def serializeYaml_def form_data sample_print)
  have p: "path form_ticket = ''.kabane/tickets/t1.yml''"
    by (simp add: form_ticket_def sample_ticket_def)
  have "ticketOfData sample_doc ''.kabane/tickets/t1.yml'' (sha form_ticket)
        = Inr (form_ticket\<lparr>labels := None, updatedAt := JStr sample_now\<rparr>)"
    by (simp add: ticketOfData_def sample_id sample_doc_def js_or_def validPriorities_def
        form_ticket_def sample_ticket_def sample_now_def)
  then have "parseTicketFile sample_parse (serializeTicket sample_stringify sample_now form_ticket)
        (path form_ticket) (sha form_ticket)
       = Inr (form_ticket\<lparr>labels := None, updatedAt := JStr sample_now\<rparr>)"
    by (simp add: parseTicketFile_def parseYaml_def s p sample_read)
  then show ?thesis
    by (simp add: form_ticket_def sample_now_def)
qed

section \<open>A truncated tree\<close>

lemma loadTicketFile_sample:
  "loadTicketFile (sample_server full limit files) yp ''acme'' ''board'' token None f st
   = (outcome (sample_server full limit files) yp ''acme'' ''board'' token None (remote st) f,
      st\<lparr>sent := sent st @ [fetch_request ''acme'' ''board'' token None (item_path f)]\<rparr>)"
proof (rule prod_eqI)
  show "fst (loadTicketFile (sample_server full limit files) yp ''acme'' ''board'' token None f st)
        = fst (outcome (sample_server full limit files) yp ''acme'' ''board'' token None
                 (remote st) f,
               st\<lparr>sent := sent st @ [fetch_request ''acme'' ''board'' token None (item_path f)]\<rparr>)"
    by (simp add: loadTicketFile_outcome)
  show "snd (loadTicketFile (sample_server full limit files) yp ''acme'' ''board'' token None f st)
        = snd (outcome (sample_server full limit files) yp ''acme'' ''board'' token None
                 (remote st) f,
               st\<lparr>sent := sent st @ [fetch_request ''acme'' ''board'' token None (item_path f)]\<rparr>)"
    by (simp add: loadTicketFile_snd githubFetch_def Let_def request_of_def fetch_request_def
        contents_endpoint_def split: prod.splits)
qed

text \<open>
  C4 fails on the code. The provider holds two ticket files and serves one, with the
  truncation flag raised. \<^verbatim>\<open>listFilesRecursively\<close> returns the one entry as if it were the
  whole listing, and \<^verbatim>\<open>loadTickets\<close> returns one ticket; nothing is written to the console,
  and neither result carries a warning.
\<close>

theorem truncated_listing_is_silent:
  "githubFetch (sample_server two_tickets 1 three_texts) (tree_endpoint ''acme'' ''board'' ''c0ffee'')
     ''token'' GET None (start ())
   = (Inr (TreeResponse [blob ''.kabane/tickets/t1.yml''] True),
      \<lparr> remote = (),
        sent = [request_of (tree_endpoint ''acme'' ''board'' ''c0ffee'') ''token'' GET None],
        warned = [] \<rparr>)
   \<and> blob ''.kabane/tickets/t3.yaml'' \<in> set two_tickets
   \<and> listFilesRecursively (sample_server two_tickets 1 three_texts) ''acme'' ''board''
        TICKETS_FOLDER ''token'' None (start ())
     = (Inr [blob ''.kabane/tickets/t1.yml''],
        \<lparr> remote = (),
          sent = [request_of (ref_endpoint ''acme'' ''board'' ''main'') ''token'' GET None,
                  request_of (tree_endpoint ''acme'' ''board'' ''c0ffee'') ''token'' GET None],
          warned = [] \<rparr>)
   \<and> loadTickets (sample_server two_tickets 1 three_texts) sample_parse ''acme'' ''board''
        ''token'' None (start ())
     = (Inr [sample_ticket\<lparr>sha := ''sha-of-.kabane/tickets/t1.yml'',
                            updatedAt := JStr sample_now\<rparr>],
        \<lparr> remote = (),
          sent = [request_of (ref_endpoint ''acme'' ''board'' ''main'') ''token'' GET None,
                  request_of (tree_endpoint ''acme'' ''board'' ''c0ffee'') ''token'' GET None,
                  fetch_request ''acme'' ''board'' ''token'' None ''.kabane/tickets/t1.yml''],
          warned = [] \<rparr>)"
proof -
  have l: "listFilesRecursively (sample_server two_tickets 1 three_texts) ''acme'' ''board''
        TICKETS_FOLDER ''token'' None (start ())
     = (Inr [blob ''.kabane/tickets/t1.yml''],
        \<lparr> remote = (),
          sent = [request_of (ref_endpoint ''acme'' ''board'' ''main'') ''token'' GET None,
                  request_of (tree_endpoint ''acme'' ''board'' ''c0ffee'') ''token'' GET None],
          warned = [] \<rparr>)"
    by (simp add: sample_listing normalize_tickets two_tickets_def in_tickets start_def)
  have t: "githubFetch (sample_server two_tickets 1 three_texts)
       (tree_endpoint ''acme'' ''board'' ''c0ffee'') ''token'' GET None (start ())
     = (Inr (TreeResponse [blob ''.kabane/tickets/t1.yml''] True),
        \<lparr> remote = (),
          sent = [request_of (tree_endpoint ''acme'' ''board'' ''c0ffee'') ''token'' GET None],
          warned = [] \<rparr>)"
    by (simp add: sample_tree two_tickets_def start_def)
  have "loadTickets (sample_server two_tickets 1 three_texts) sample_parse ''acme'' ''board''
        ''token'' None (start ())
     = (Inr [sample_ticket\<lparr>sha := ''sha-of-.kabane/tickets/t1.yml'',
                            updatedAt := JStr sample_now\<rparr>],
        \<lparr> remote = (),
          sent = [request_of (ref_endpoint ''acme'' ''board'' ''main'') ''token'' GET None,
                  request_of (tree_endpoint ''acme'' ''board'' ''c0ffee'') ''token'' GET None,
                  fetch_request ''acme'' ''board'' ''token'' None ''.kabane/tickets/t1.yml''],
          warned = [] \<rparr>)"
    unfolding loadTickets_def l
    by (simp add: loadTicketFile_sample three_outcomes ticket_paths)
  with l t show ?thesis
    by (simp add: two_tickets_def)
qed

section \<open>Partial-failure isolation\<close>

text \<open>
  C5. Let the listing of the tickets folder succeed with \<open>files\<close>, against a provider whose
  reads leave its state alone. The ticket files are the listed files whose path ends in
  \<^verbatim>\<open>.yml\<close> or \<^verbatim>\<open>.yaml\<close>. Then \<^verbatim>\<open>loadTickets\<close> does not raise: it returns, in listing order, exactly
  the tickets of the ticket files that fetch and decode. So when exactly one of the \<open>N\<close>
  ticket files fails to fetch or to decode, the \<open>N - 1\<close> others are returned.
\<close>

theorem loadTickets_isolates_failures:
  assumes ro: "read_only srv"
    and listing: "listFilesRecursively srv owner repo TICKETS_FOLDER token branch st = (Inr files, st1)"
  shows "fst (loadTickets srv yp owner repo token branch st)
           = Inr (decoded srv yp owner repo token branch (remote st) files)
         \<and> (length (malformed srv yp owner repo token branch (remote st) files) = 1
              \<longrightarrow> length (decoded srv yp owner repo token branch (remote st) files)
                    = length (ticketFiles files) - 1)"
  using loadTickets_run [OF ro listing, of yp]
    decoded_length [of srv yp owner repo token branch "remote st" files]
  by (simp, arith)

text \<open>Three ticket files, the second of which is not YAML: the first and the third come
  back.\<close>

theorem loadTickets_isolates_failures_witness:
  "read_only (sample_server three_tickets 100 three_texts)
   \<and> length (ticketFiles three_tickets) = 3
   \<and> malformed (sample_server three_tickets 100 three_texts) sample_parse ''acme'' ''board''
        ''token'' None () three_tickets = [blob ''.kabane/tickets/t2.yml'']
   \<and> map_sum id (map ticket_id)
        (fst (loadTickets (sample_server three_tickets 100 three_texts) sample_parse
                ''acme'' ''board'' ''token'' None (start ())))
       = Inr [''t1'', ''t3'']"
proof -
  let ?srv = "sample_server three_tickets 100 three_texts"
  have ro: "read_only ?srv" by (rule sample_server_read_only)
  have tf: "ticketFiles three_tickets = three_tickets"
    by (simp add: ticketFiles_def three_tickets_def blob_def ticket_paths)
  have listing: "listFilesRecursively ?srv ''acme'' ''board'' TICKETS_FOLDER ''token'' None (start ())
      = (Inr three_tickets,
         (start ())\<lparr>sent := sent (start ())
            @ [request_of (ref_endpoint ''acme'' ''board'' ''main'') ''token'' GET None,
               request_of (tree_endpoint ''acme'' ''board'' ''c0ffee'') ''token'' GET None]\<rparr>)"
    by (simp add: sample_listing normalize_tickets three_tickets_def in_tickets)
  have m: "malformed ?srv sample_parse ''acme'' ''board'' ''token'' None () three_tickets
           = [blob ''.kabane/tickets/t2.yml'']"
    unfolding malformed_def tf by (simp add: three_tickets_def three_outcomes)
  have d: "map ticket_id (decoded ?srv sample_parse ''acme'' ''board'' ''token'' None () three_tickets)
           = [''t1'', ''t3'']"
    unfolding decoded_def tf by (simp add: three_tickets_def three_outcomes sample_ticket_def)
  from loadTickets_isolates_failures [OF ro listing, of sample_parse]
  have "fst (loadTickets ?srv sample_parse ''acme'' ''board'' ''token'' None (start ()))
        = Inr (decoded ?srv sample_parse ''acme'' ''board'' ''token'' None () three_tickets)"
    by (simp add: start_def)
  with ro tf m d show ?thesis
    by (simp add: three_tickets_def)
qed

section \<open>An empty or absent tickets directory\<close>

text \<open>What holds of the code: a branch or tree lookup answered NotFound, and a listing in
  which no blob path starts with the root, both give the empty collection.\<close>

lemma loadTickets_not_found:
  "listFilesRecursively srv owner repo TICKETS_FOLDER token branch st = (Inl e, st1) \<Longrightarrow>
   isNotFound e \<Longrightarrow>
   loadTickets srv yp owner repo token branch st = (Inr [], st1)"
  by (simp add: loadTickets_def)

lemma loadTickets_nothing_listed:
  "listFilesRecursively srv owner repo TICKETS_FOLDER token branch st = (Inr [], st1) \<Longrightarrow>
   loadTickets srv yp owner repo token branch st = (Inr [], st1)"
  by (simp add: loadTickets_def)

text \<open>
  C6 fails on the code. The repository below has no \<^verbatim>\<open>.kabane/tickets\<close> directory: no path of
  its tree starts with \<^verbatim>\<open>.kabane/tickets/\<close>. It has a file \<^verbatim>\<open>.kabane/tickets-archive/a.yml\<close>,
  and \<^verbatim>\<open>loadTickets\<close> returns that file as the ticket \<^verbatim>\<open>a\<close> instead of the empty collection.
\<close>

theorem absent_directory_not_empty:
  "filter (\<lambda>i. prefix (TICKETS_FOLDER @ ''/'') (item_path i)) archive_only = []
   \<and> fst (loadTickets (sample_server archive_only 100 archive_texts) sample_parse
            ''acme'' ''board'' ''token'' None (start ()))
       = Inr [sample_ticket\<lparr>ticket_id := ''a'', path := ''.kabane/tickets-archive/a.yml'',
                            sha := ''sha-of-.kabane/tickets-archive/a.yml'',
                            updatedAt := JStr sample_now\<rparr>]"
proof -
  let ?srv = "sample_server archive_only 100 archive_texts"
  have none: "filter (\<lambda>i. prefix (TICKETS_FOLDER @ ''/'') (item_path i)) archive_only = []"
    by (simp add: archive_only_def TICKETS_FOLDER_def KABANE_FOLDER_def)
  have listing: "listFilesRecursively ?srv ''acme'' ''board'' TICKETS_FOLDER ''token'' None (start ())
      = (Inr [blob ''.kabane/tickets-archive/a.yml''],
         (start ())\<lparr>sent := sent (start ())
            @ [request_of (ref_endpoint ''acme'' ''board'' ''main'') ''token'' GET None,
               request_of (tree_endpoint ''acme'' ''board'' ''c0ffee'') ''token'' GET None]\<rparr>)"
    by (simp add: sample_listing normalize_tickets archive_only_def in_tickets)
  have "decoded ?srv sample_parse ''acme'' ''board'' ''token'' None (remote (start ()))
          [blob ''.kabane/tickets-archive/a.yml'']
        = [sample_ticket\<lparr>ticket_id := ''a'', path := ''.kabane/tickets-archive/a.yml'',
                            sha := ''sha-of-.kabane/tickets-archive/a.yml'',
                            updatedAt := JStr sample_now\<rparr>]"
    by (simp add: decoded_def ticketFiles_def ticket_paths archive_outcome)
  with loadTickets_run [OF sample_server_read_only listing, of sample_parse] none
  show ?thesis by simp
qed

section \<open>The two shapes of a list file\<close>

lemma map_throw_ok:
  "\<forall>x \<in> set xs. \<not> isl (f x) \<Longrightarrow> \<not> isl (map_throw f xs)"
  by (induction xs) (auto split: sum.splits)

lemma listOfData_bare: "listOfData key msg (JArr items) = Inr items"
  by (simp add: listOfData_def)

lemma listOfData_keyed: "listOfData key msg (JObj [(key, JArr items)]) = Inr items"
  by (simp add: listOfData_def)

text \<open>
  C7. Let one text be the bare-sequence form of a list of items and three texts its
  keyed-object forms under the keys \<^verbatim>\<open>columns\<close>, \<^verbatim>\<open>ticketTypes\<close> and \<^verbatim>\<open>versions\<close> (that is what
  the YAML library reads them as). Then \<^verbatim>\<open>parseColumnsFile\<close>, \<^verbatim>\<open>parseTicketTypesFile\<close> and
  \<^verbatim>\<open>parseVersionsFile\<close> each yield the same result on the keyed form as on the bare one, and
  when no item is null that result is a decoded collection, not an error.
\<close>

theorem list_file_shapes_agree:
  assumes bare: "yaml_parse bare = Some (JArr items)"
    and keyed: "yaml_parse kc = Some (JObj [(''columns'', JArr items)])"
               "yaml_parse kt = Some (JObj [(''ticketTypes'', JArr items)])"
               "yaml_parse kv = Some (JObj [(''versions'', JArr items)])"
  shows "parseColumnsFile yaml_parse kc = parseColumnsFile yaml_parse bare
       \<and> parseTicketTypesFile yaml_parse kt = parseTicketTypesFile yaml_parse bare
       \<and> parseVersionsFile yaml_parse kv = parseVersionsFile yaml_parse bare
       \<and> ((\<forall>i \<in> set items. \<not> nullish i) \<longrightarrow>
            \<not> isl (parseColumnsFile yaml_parse bare)
            \<and> \<not> isl (parseTicketTypesFile yaml_parse bare)
            \<and> \<not> isl (parseVersionsFile yaml_parse bare))"
proof -
  have c: "parseColumnsFile yaml_parse kc = map_throw columnOfItem items"
       "parseColumnsFile yaml_parse bare = map_throw columnOfItem items"
    using bare keyed
    by (simp_all add: parseColumnsFile_def parseYaml_def listOfData_bare listOfData_keyed)
  have t: "parseTicketTypesFile yaml_parse kt = map_throw typeOfItem items"
       "parseTicketTypesFile yaml_parse bare = map_throw typeOfItem items"
    using bare keyed
    by (simp_all add: parseTicketTypesFile_def parseYaml_def listOfData_bare listOfData_keyed)
  have v: "parseVersionsFile yaml_parse kv = map_throw versionOfItem items"
       "parseVersionsFile yaml_parse bare = map_throw versionOfItem items"
    using bare keyed
    by (simp_all add: parseVersionsFile_def parseYaml_def listOfData_bare listOfData_keyed)
  have ok: "\<not> isl (map_throw columnOfItem items)" "\<not> isl (map_throw typeOfItem items)"
      "\<not> isl (map_throw versionOfItem items)" if "\<forall>i \<in> set items. \<not> nullish i"
    using that
    by (auto intro!: map_throw_ok simp: columnOfItem_def typeOfItem_def versionOfItem_def)
  from c t v ok show ?thesis by simp
qed

theorem list_file_shapes_agree_witness:
  "sample_parse bare_text = Some (JArr sample_items)
   \<and> sample_parse columns_text = Some (JObj [(''columns'', JArr sample_items)])
   \<and> parseColumnsFile sample_parse columns_text = parseColumnsFile sample_parse bare_text
   \<and> parseColumnsFile sample_parse bare_text
       = Inr [\<lparr> c_id = JStr ''todo'', c_name = JStr ''To Do'',
                 c_statuses = JArr [JStr ''todo''], c_color = JUndefined \<rparr>]
   \<and> parseTicketTypesFile sample_parse types_text = parseTicketTypesFile sample_parse bare_text
   \<and> parseVersionsFile sample_parse versions_text = parseVersionsFile sample_parse bare_text"
proof -
  have e: "parseColumnsFile sample_parse bare_text
       = Inr [\<lparr> c_id = JStr ''todo'', c_name = JStr ''To Do'',
                 c_statuses = JArr [JStr ''todo''], c_color = JUndefined \<rparr>]"
    by (simp add: parseColumnsFile_def parseYaml_def sample_lists listOfData_bare
        sample_items_def columnOfItem_def)
  from list_file_shapes_agree [OF sample_lists] sample_lists(1,2) e
  show ?thesis by simp
qed

section \<open>Stored image names\<close>

lemma upload_instant: "show_nat 1762077600000 = ''1762077600000''"
  by (simp add: show_nat.simps digits_def)

lemma sample_file_valid: "isValidImageExtension (file_name sample_file)"
  by (simp add: isValidImageExtension_def sample_file_def split_pop_def toLowerCase_def
      lower_char_def ALLOWED_IMAGE_EXTENSIONS_def)

lemma sample_image_name: "imageNameOf 1762077600000 (file_name sample_file) = ''1762077600000-a.png''"
  by (simp add: imageNameOf_def upload_instant sample_file_def sanitize_def keep_char_def)

text \<open>The stored name is a function of the clock reading and the file's name, and of
  nothing else.\<close>

lemma uploadImage_name:
  "fst (uploadImage srv timestamp owner repo ticketId img token branch st) = Inr n \<Longrightarrow>
   n = imageNameOf timestamp (file_name img)"
  by (auto simp: uploadImage_def await_def throw_def return_def fileToBase64_def Let_def
      split: if_splits option.splits sum.splits prod.splits)

text \<open>
  C8 fails on the code. Two uploads of a file named \<^verbatim>\<open>a.png\<close> to the same ticket read the same
  value of \<^verbatim>\<open>Date.now()\<close>. Both generate the stored name \<^verbatim>\<open>1762077600000-a.png\<close>: the first
  upload returns it, and the second sends its PUT to the same URL, where the provider, asked
  to create a file that exists, refuses it.
\<close>

theorem same_instant_same_stored_name:
  "fst (uploadImage (spec_provider sample_hash) 1762077600000 ''acme'' ''board'' ''t1''
          sample_file ''token'' (Some ''main'') (start Map.empty))
     = Inr ''1762077600000-a.png''
   \<and> map req_url
        (sent (snd (uploadImage (spec_provider sample_hash) 1762077600000 ''acme'' ''board'' ''t1''
                      sample_file ''token'' (Some ''main'')
                      (snd (uploadImage (spec_provider sample_hash) 1762077600000 ''acme''
                              ''board'' ''t1'' sample_file ''token'' (Some ''main'')
                              (start Map.empty))))))
     = [''https://api.github.com/repos/acme/board/contents/.kabane/images/t1/1762077600000-a.png'',
        ''https://api.github.com/repos/acme/board/contents/.kabane/images/t1/1762077600000-a.png'']
   \<and> isl (fst (uploadImage (spec_provider sample_hash) 1762077600000 ''acme'' ''board'' ''t1''
                  sample_file ''token'' (Some ''main'')
                  (snd (uploadImage (spec_provider sample_hash) 1762077600000 ''acme''
                          ''board'' ''t1'' sample_file ''token'' (Some ''main'')
                          (start Map.empty)))))"
proof -
  let ?u = "''https://api.github.com/repos/acme/board/contents/.kabane/images/t1/1762077600000-a.png''"
  let ?body = "\<lparr> body_message = ''Add image 1762077600000-a.png for ticket t1'',
                 body_content = Some ''iVBORw0KGgo='', body_sha = None,
                 body_branch = Some ''main'' \<rparr>"
  let ?req = "\<lparr> req_url = ?u, req_method = PUT, req_token = ''token'', req_body = Some ?body \<rparr>"
  have fields: "file_base64 sample_file = Some ''iVBORw0KGgo=''"
    by (simp add: sample_file_def)
  have r: "resource ?u = ?u"
    by (simp add: resource_def)
  have up: "uploadImage (spec_provider sample_hash) 1762077600000 ''acme'' ''board'' ''t1''
              sample_file ''token'' (Some ''main'') st
            = (map_sum id (\<lambda>created. ''1762077600000-a.png'')
                 (settle (fst (spec_provider sample_hash (remote st) ?req))),
               st\<lparr>remote := snd (spec_provider sample_hash (remote st) ?req),
                   sent := sent st @ [?req]\<rparr>)" for st
    using sample_file_valid
    by (simp add: uploadImage_def await_def return_def fileToBase64_def sample_image_name
        getImagePath_def githubFetch_def Let_def request_of_def contents_endpoint_def
        GITHUB_API_BASE_def fields case_prod_beta split: sum.splits)
  have first: "spec_provider sample_hash Map.empty ?req
      = (ok_response 201 (CommitResponse (stored_file sample_hash ?u ''iVBORw0KGgo='')),
         [?u \<mapsto> ''iVBORw0KGgo=''])"
    by (simp add: spec_provider_def Let_def r)
  have second: "fst (spec_provider sample_hash [?u \<mapsto> ''iVBORw0KGgo=''] ?req)
      = error_response 422 ''Already exists''"
    by (simp add: spec_provider_def Let_def r)
  show ?thesis
    by (simp add: up first second start_def settle_def ok_response_def error_response_def
        response_ok_def)
qed

section \<open>Image extensions\<close>









section \<open>The prefix test of the listing\<close>

lemma inPath_prefix:
  "filter (inPath root) tree
   = filter (\<lambda>item. item_type item = Blob \<and> prefix root (item_path item)) tree"
  by (rule filter_cong) (simp_all add: inPath_def)

lemma ticketFiles_filter:
  "ticketFiles (filter (\<lambda>item. item_type item = Blob \<and> prefix root (item_path item)) tree)
   = filter (\<lambda>item. item_type item = Blob \<and> prefix root (item_path item)
                     \<and> isTicketPath (item_path item)) tree"
  by (simp add: ticketFiles_def conj_commute conj_left_commute)

text \<open>
  C10. Let the provider answer the branch lookup and the tree request, the latter with the
  tree \<open>tree\<close>. Then \<^verbatim>\<open>listFilesRecursively\<close> returns exactly the blobs of \<open>tree\<close> whose path has
  the normalized root path as a string prefix, in the order of the tree: no path separator is
  asked for after the root, so a blob whose path merely begins with the root is in the result,
  and nothing else is. On top of it, \<^verbatim>\<open>loadTickets\<close> issues, after the two listing requests,
  exactly one fetch for each blob whose path starts with \<^verbatim>\<open>.kabane/tickets\<close> and ends in
  \<^verbatim>\<open>.yml\<close> or \<^verbatim>\<open>.yaml\<close>; and against a provider whose reads leave its state alone it returns
  the tickets of those of these files that fetch and decode.
\<close>

theorem listing_by_prefix:
  assumes ref: "githubFetch srv (ref_endpoint owner repo (str_or branch ''main'')) token GET None st
                = (Inr (RefResponse h), st1)"
    and tr: "githubFetch srv (tree_endpoint owner repo h) token GET None st1
             = (Inr (TreeResponse tree truncated), st2)"
  shows "listFilesRecursively srv owner repo p token branch st
           = (Inr (filter (\<lambda>item. item_type item = Blob
                                   \<and> prefix (normalizePath p) (item_path item)) tree), st2)
       \<and> sent (snd (loadTickets srv yp owner repo token branch st))
           = sent st2 @ map (\<lambda>item. fetch_request owner repo token branch (item_path item))
               (filter (\<lambda>item. item_type item = Blob \<and> prefix TICKETS_FOLDER (item_path item)
                                \<and> isTicketPath (item_path item)) tree)
       \<and> (read_only srv \<longrightarrow>
            fst (loadTickets srv yp owner repo token branch st)
            = Inr (decoded srv yp owner repo token branch (remote st)
                     (filter (\<lambda>item. item_type item = Blob
                                      \<and> prefix TICKETS_FOLDER (item_path item)) tree)))"
proof (intro conjI impI)
  show "listFilesRecursively srv owner repo p token branch st
          = (Inr (filter (\<lambda>item. item_type item = Blob
                                  \<and> prefix (normalizePath p) (item_path item)) tree), st2)"
    using listFilesRecursively_run [OF ref tr, of p] by (simp add: inPath_prefix)
next
  let ?files = "filter (\<lambda>item. item_type item = Blob \<and> prefix TICKETS_FOLDER (item_path item)) tree"
  have listing: "listFilesRecursively srv owner repo TICKETS_FOLDER token branch st
                 = (Inr ?files, st2)"
    using listFilesRecursively_run [OF ref tr, of TICKETS_FOLDER]
    by (simp add: normalize_tickets inPath_prefix)
  have "snd (loadTickets srv yp owner repo token branch st)
        = snd (loadEach srv yp owner repo token branch ?files [] st2)"
    using listing by (simp add: loadTickets_def split: prod.splits)
  then show "sent (snd (loadTickets srv yp owner repo token branch st))
      = sent st2 @ map (\<lambda>item. fetch_request owner repo token branch (item_path item))
          (filter (\<lambda>item. item_type item = Blob \<and> prefix TICKETS_FOLDER (item_path item)
                           \<and> isTicketPath (item_path item)) tree)"
    by (simp only: loadEach_sent ticketFiles_filter)
  show "fst (loadTickets srv yp owner repo token branch st)
        = Inr (decoded srv yp owner repo token branch (remote st) ?files)"
    if ro: "read_only srv"
    by (rule loadTickets_run [OF ro listing])
qed

text \<open>The claim's own example: of \<^verbatim>\<open>README.md\<close> and \<^verbatim>\<open>.kabane/tickets-archive/a.yml\<close>, listing
  \<^verbatim>\<open>.kabane/tickets\<close> returns the second, which is in no directory of that name; the file is
  fetched and decoded as the ticket \<^verbatim>\<open>a\<close>.\<close>

theorem listing_by_prefix_witness:
  "\<not> prefix (TICKETS_FOLDER @ ''/'') ''.kabane/tickets-archive/a.yml''
   \<and> fst (listFilesRecursively (sample_server archive_only 100 archive_texts)
            ''acme'' ''board'' TICKETS_FOLDER ''token'' None (start ()))
       = Inr [blob ''.kabane/tickets-archive/a.yml'']
   \<and> sent (snd (loadTickets (sample_server archive_only 100 archive_texts) sample_parse
                   ''acme'' ''board'' ''token'' None (start ())))
       = [request_of (ref_endpoint ''acme'' ''board'' ''main'') ''token'' GET None,
          request_of (tree_endpoint ''acme'' ''board'' ''c0ffee'') ''token'' GET None,
          fetch_request ''acme'' ''board'' ''token'' None ''.kabane/tickets-archive/a.yml'']
   \<and> map_sum id (map ticket_id)
        (fst (loadTickets (sample_server archive_only 100 archive_texts) sample_parse
                ''acme'' ''board'' ''token'' None (start ())))
       = Inr [''a'']"
proof -
  let ?srv = "sample_server archive_only 100 archive_texts"
  let ?st1 = "(start ())\<lparr>sent := sent (start ())
                   @ [request_of (ref_endpoint ''acme'' ''board'' ''main'') ''token'' GET None]\<rparr>"
  let ?st2 = "?st1\<lparr>sent := sent ?st1
                   @ [request_of (tree_endpoint ''acme'' ''board'' ''c0ffee'') ''token'' GET None]\<rparr>"
  have ref: "githubFetch ?srv (ref_endpoint ''acme'' ''board'' (str_or None ''main'')) ''token''
               GET None (start ())
             = (Inr (RefResponse ''c0ffee''), ?st1)"
    by (simp add: str_or_def sample_ref)
  have tr: "githubFetch ?srv (tree_endpoint ''acme'' ''board'' ''c0ffee'') ''token'' GET None ?st1
            = (Inr (TreeResponse archive_only False), ?st2)"
    by (simp add: sample_tree archive_only_def)
  have nodir: "\<not> prefix (TICKETS_FOLDER @ ''/'') ''.kabane/tickets-archive/a.yml''"
    by (simp add: TICKETS_FOLDER_def KABANE_FOLDER_def)
  have sel: "filter (\<lambda>item. item_type item = Blob
                             \<and> prefix (normalizePath TICKETS_FOLDER) (item_path item)) archive_only
             = [blob ''.kabane/tickets-archive/a.yml'']"
       "filter (\<lambda>item. item_type item = Blob \<and> prefix TICKETS_FOLDER (item_path item))
          archive_only
        = [blob ''.kabane/tickets-archive/a.yml'']"
       "filter (\<lambda>item. item_type item = Blob \<and> prefix TICKETS_FOLDER (item_path item)
                        \<and> isTicketPath (item_path item)) archive_only
        = [blob ''.kabane/tickets-archive/a.yml'']"
    unfolding normalize_tickets
    by (simp_all add: archive_only_def ticket_paths TICKETS_FOLDER_def KABANE_FOLDER_def)
  have dec: "map ticket_id (decoded ?srv sample_parse ''acme'' ''board'' ''token'' None ()
                              [blob ''.kabane/tickets-archive/a.yml''])
             = [''a'']"
    by (simp add: decoded_def ticketFiles_def ticket_paths archive_outcome)
  note main = listing_by_prefix [OF ref tr, where p = TICKETS_FOLDER and yp = sample_parse]
  from main have l: "fst (listFilesRecursively ?srv ''acme'' ''board'' TICKETS_FOLDER ''token''
                            None (start ()))
                     = Inr [blob ''.kabane/tickets-archive/a.yml'']"
    by (simp only: sel fst_conv)
  from main have s: "sent (snd (loadTickets ?srv sample_parse ''acme'' ''board'' ''token'' None
                                  (start ())))
      = [request_of (ref_endpoint ''acme'' ''board'' ''main'') ''token'' GET None,
         request_of (tree_endpoint ''acme'' ''board'' ''c0ffee'') ''token'' GET None,
         fetch_request ''acme'' ''board'' ''token'' None ''.kabane/tickets-archive/a.yml'']"
    by (simp add: sel start_def)
  from main sample_server_read_only [of archive_only 100 archive_texts]
  have "fst (loadTickets ?srv sample_parse ''acme'' ''board'' ''token'' None (start ()))
        = Inr (decoded ?srv sample_parse ''acme'' ''board'' ''token'' None ()
                 [blob ''.kabane/tickets-archive/a.yml''])"
    by (simp add: sel start_def)
  with dec have t: "map_sum id (map ticket_id)
        (fst (loadTickets ?srv sample_parse ''acme'' ''board'' ''token'' None (start ())))
       = Inr [''a'']"
    by simp
  from nodir l s t show ?thesis by (intro conjI)
qed

end
